theory Spec2Isabelle
  imports Main "HOL-Library.Char_ord" "HOL-Library.List_Lexorder" "HOL-Library.Sublist"
    "HOL-Library.Multiset"
begin

section \<open>spin-vm: an interactive front-end that provisions and launches QEMU machines\<close>

text \<open>
  The development embeds \<^verbatim>\<open>spin-vm.py\<close>. Python strings are \<^typ>\<open>string\<close>
  (lists of characters), \<^verbatim>\<open>None\<close> is \<^const>\<open>None\<close>, and the calls the script
  makes into the operating system (processes, the file system, the terminal) are recorded
  in a trace, with their answers taken from an explicit environment.
\<close>

subsection \<open>Constants of the script\<close>

definition QEMU_BIN :: string where
  "QEMU_BIN = ''qemu-system-x86_64''"

definition OVMF_CODE :: string where
  "OVMF_CODE = ''/usr/share/OVMF/OVMF_CODE_4M.fd''"

definition OVMF_VARS_TEMPLATE :: string where
  "OVMF_VARS_TEMPLATE = ''/usr/share/OVMF/OVMF_VARS_4M.fd''"

definition BACKTITLE :: string where
  "BACKTITLE = ''SIMPLE VM CREATOR by Alexia Michelle https://github.com/alexiarstein/spin-vm''"

subsection \<open>The string methods of Python the script calls\<close>

text \<open>
  \<^verbatim>\<open>str.strip()\<close> removes leading and trailing whitespace. A character here is a
  code point below 256; the ones below are those for which Python's \<^verbatim>\<open>str.isspace\<close> is
  true in that range, the next-line character U+0085 and the no-break space U+00A0
  among them.
\<close>

definition isspace :: "char \<Rightarrow> bool" where
  "isspace c \<longleftrightarrow> c \<in> set [CHR 0x09, CHR 0x0A, CHR 0x0B, CHR 0x0C, CHR 0x0D,
                         CHR 0x1C, CHR 0x1D, CHR 0x1E, CHR 0x1F, CHR 0x20, CHR 0x85,
                         CHR 0xA0]"

definition strip :: "string \<Rightarrow> string" where
  "strip s = rev (dropWhile isspace (rev (dropWhile isspace s)))"

text \<open>
  \<^verbatim>\<open>s.replace(old, new)\<close> scans \<open>s\<close> from the left and replaces every occurrence of
  \<open>old\<close> that does not overlap an earlier one; with an empty \<open>old\<close> it puts \<open>new\<close>
  before every character and at the end.
\<close>

function replace :: "string \<Rightarrow> string \<Rightarrow> string \<Rightarrow> string" where
  "replace old new s =
     (if old = [] then new @ concat (map (\<lambda>c. c # new) s)
      else if s = [] then []
      else if prefix old s then new @ replace old new (drop (length old) s)
      else hd s # replace old new (tl s))"
  by pat_completeness auto
termination
  by (relation "measure (\<lambda>(old, new, s). length s)") auto

declare replace.simps [simp del]

text \<open>\<^verbatim>\<open>sep.join(xs)\<close>.\<close>

fun str_join :: "string \<Rightarrow> string list \<Rightarrow> string" where
  "str_join sep [] = []"
| "str_join sep [x] = x"
| "str_join sep (x # y # ys) = x @ sep @ str_join sep (y # ys)"

text \<open>\<^verbatim>\<open>str(n)\<close> for a number that is not negative.\<close>

definition digit :: "nat \<Rightarrow> char" where
  "digit d = char_of (of_char (CHR ''0'') + d)"

function str :: "nat \<Rightarrow> string" where
  "str n = (if n < 10 then [digit n] else str (n div 10) @ [digit (n mod 10)])"
  by pat_completeness auto
termination
  by (relation "measure id") auto

declare str.simps [simp del]

subsection \<open>\<^verbatim>\<open>os.path\<close> on a POSIX system\<close>

text \<open>
  \<^verbatim>\<open>basename(p)\<close> is what follows the last slash; \<^verbatim>\<open>dirname(p)\<close> is what stands
  before it, without its trailing slashes unless it consists of slashes only.
\<close>

definition basename :: "string \<Rightarrow> string" where
  "basename p = rev (takeWhile (\<lambda>c. c \<noteq> CHR ''/'') (rev p))"

definition dirname :: "string \<Rightarrow> string" where
  "dirname p =
     (let head = rev (dropWhile (\<lambda>c. c \<noteq> CHR ''/'') (rev p))
      in if head \<noteq> [] \<and> head \<noteq> replicate (length head) (CHR ''/'')
         then rev (dropWhile (\<lambda>c. c = CHR ''/'') (rev head))
         else head)"

text \<open>\<^verbatim>\<open>join(a, b)\<close> with two arguments: an absolute \<open>b\<close> discards \<open>a\<close>.\<close>

definition join :: "string \<Rightarrow> string \<Rightarrow> string" where
  "join a b =
     (if prefix ''/'' b then b
      else if a = [] \<or> suffix ''/'' a then a @ b
      else a @ ''/'' @ b)"

definition isabs :: "string \<Rightarrow> bool" where
  "isabs p \<longleftrightarrow> prefix ''/'' p"

text \<open>\<^verbatim>\<open>p.split('/')\<close>: the pieces between the slashes, empty ones included.\<close>

fun split_sep :: "string \<Rightarrow> string list" where
  "split_sep [] = [[]]"
| "split_sep (c # cs) =
     (if c = CHR ''/'' then [] # split_sep cs
      else (case split_sep cs of [] \<Rightarrow> [[c]] | w # ws \<Rightarrow> (c # w) # ws))"

text \<open>
  \<^verbatim>\<open>normpath\<close> drops empty and \<open>.\<close> components and resolves \<open>..\<close> against the
  component before it; exactly two leading slashes are kept, any other number of them
  becomes one. \<open>norm_comps\<close> is the loop over the components, with \<open>new_comps\<close> as
  its accumulator.
\<close>

fun norm_comps :: "nat \<Rightarrow> string list \<Rightarrow> string list \<Rightarrow> string list" where
  "norm_comps initial_slashes new_comps [] = new_comps"
| "norm_comps initial_slashes new_comps (cmp # comps) =
     (if cmp = [] \<or> cmp = ''.'' then norm_comps initial_slashes new_comps comps
      else if cmp \<noteq> ''..'' \<or> (initial_slashes = 0 \<and> new_comps = [])
              \<or> (new_comps \<noteq> [] \<and> last new_comps = ''..'')
        then norm_comps initial_slashes (new_comps @ [cmp]) comps
      else if new_comps \<noteq> [] then norm_comps initial_slashes (butlast new_comps) comps
      else norm_comps initial_slashes new_comps comps)"

definition normpath :: "string \<Rightarrow> string" where
  "normpath path =
     (if path = [] then ''.''
      else
        let initial_slashes =
              (if prefix ''/'' path
               then (if prefix ''//'' path \<and> \<not> prefix ''///'' path then 2 else 1)
               else 0 :: nat);
            comps = norm_comps initial_slashes [] (split_sep path);
            path' = replicate initial_slashes (CHR ''/'') @ str_join ''/'' comps
        in if path' = [] then ''.'' else path')"

subsection \<open>The paths of the artifacts\<close>

text \<open>
  Lines 166 to 168 of \<^verbatim>\<open>main\<close>:
  \<^verbatim>\<open>
  disk_name = os.path.basename(iso_path).replace(".iso", "") + (".uefi" if is_uefi else "") + ".qcow2"
  disk_path = os.path.join(vm_dir, disk_name)
  vars_path = os.path.join(vm_dir, "OVMF_VARS_" + os.path.basename(iso_path).replace(".iso", "") + ".fd")
  \<close>
\<close>

definition disk_name :: "string \<Rightarrow> bool \<Rightarrow> string" where
  "disk_name iso_path is_uefi =
     replace ''.iso'' '''' (basename iso_path) @ (if is_uefi then ''.uefi'' else '''') @ ''.qcow2''"

definition disk_path :: "string \<Rightarrow> string \<Rightarrow> bool \<Rightarrow> string" where
  "disk_path iso_path vm_dir is_uefi = join vm_dir (disk_name iso_path is_uefi)"

definition vars_path :: "string \<Rightarrow> string \<Rightarrow> string" where
  "vars_path iso_path vm_dir =
     join vm_dir (''OVMF_VARS_'' @ replace ''.iso'' '''' (basename iso_path) @ ''.fd'')"

text \<open>
  The naming formula in the words of the specification: the storage directory, a slash,
  the base name of the medium with its extension stripped, the optional \<open>.uefi\<close> and
  \<open>.qcow2\<close>. The extension of a name is what \<^verbatim>\<open>os.path.splitext\<close> splits off: the
  last dot and what follows it, unless only dots stand before it.
\<close>

definition spec_strip_extension :: "string \<Rightarrow> string" where
  "spec_strip_extension b =
     (let after = dropWhile (\<lambda>c. c \<noteq> CHR ''.'') (rev b)
      in if after = [] \<or> (\<forall>c \<in> set (tl after). c = CHR ''.'') then b
         else rev (tl after))"

definition spec_disk_path :: "string \<Rightarrow> string \<Rightarrow> bool \<Rightarrow> string" where
  "spec_disk_path medium storageDir uefi =
     storageDir @ ''/'' @ spec_strip_extension (basename medium)
       @ (if uefi then ''.uefi'' else '''') @ ''.qcow2''"

definition spec_vars_path :: "string \<Rightarrow> string \<Rightarrow> string" where
  "spec_vars_path medium storageDir =
     storageDir @ ''/OVMF_VARS_'' @ spec_strip_extension (basename medium) @ ''.fd''"

subsection \<open>The world the script runs in\<close>

text \<open>
  What the script asks of the file system is answered by an environment; what it does
  to the outside is appended to a trace. Every \<^verbatim>\<open>subprocess.run\<close> blocks until the
  process ends: the results of the processes still to come are a list, consumed in call
  order, and a call with no result left never returns. The effects of the script touch
  no path that it tests afterwards (the disk path is tested before it is removed and
  created, and the variables path ends differently), so the tests are answered by one
  environment throughout.
\<close>

datatype pyexc =
    PermissionError
  | FileNotFoundError
  | NotADirectoryError
  | IsADirectoryError
  | EOFError

datatype effect =
    Print string
  | PrintError "string list"
  | Input string
  | Subprocess "string list"
  | Makedirs string
  | Remove string
  | Copy string string

text \<open>
  \<open>Print\<close> is a line written by \<^verbatim>\<open>print\<close>; \<open>PrintError cmd\<close> is the message of
  \<^verbatim>\<open>run_command\<close> about a failed command (its text quotes the exception and is not
  modelled); \<open>Input\<close> is the prompt of \<^verbatim>\<open>input\<close>; \<open>Subprocess\<close> is the argument
  list given to \<^verbatim>\<open>subprocess.run\<close>; \<open>Makedirs\<close>, \<open>Remove\<close> and \<open>Copy\<close> are
  \<^verbatim>\<open>os.makedirs(p, exist_ok=True)\<close>, \<^verbatim>\<open>os.remove(p)\<close> and \<^verbatim>\<open>shutil.copy(src, dst)\<close>.
\<close>

record completed =
  returncode :: int
  stdout :: string
  stderr :: string

record env =
  which :: "string \<Rightarrow> bool"
  path_exists :: "string \<Rightarrow> bool"
  isdir :: "string \<Rightarrow> bool"
  isfile :: "string \<Rightarrow> bool"
  listdir :: "string \<Rightarrow> pyexc + string list"
  remove_error :: "string \<Rightarrow> pyexc option"
  copy_error :: "string \<Rightarrow> string \<Rightarrow> pyexc option"
  getcwd :: string
  home :: string

text \<open>
  \<open>which d\<close> says that \<^verbatim>\<open>shutil.which(d)\<close> is not \<^verbatim>\<open>None\<close>; \<open>path_exists\<close>,
  \<open>isdir\<close>, \<open>isfile\<close> and \<open>listdir\<close> are the functions of \<^verbatim>\<open>os.path\<close> and
  \<^verbatim>\<open>os\<close> of these names; \<open>home\<close> is \<^verbatim>\<open>os.path.expanduser("~")\<close>.
  \<open>remove_error p\<close> is the exception that \<^verbatim>\<open>os.remove(p)\<close> raises and
  \<open>copy_error src dst\<close> the one that \<^verbatim>\<open>shutil.copy(src, dst)\<close> raises (a file that
  may not be removed, a template that is missing, a directory that may not be written),
  \<open>None\<close> when the call succeeds. The script catches neither.
\<close>

record state =
  trace :: "effect list"
  responses :: "completed list"
  keyboard :: "string list"

datatype 'a outcome = Return 'a | Exit int | Raise pyexc | Blocked

type_synonym 'a prog = "state \<Rightarrow> 'a outcome \<times> state"

definition return :: "'a \<Rightarrow> 'a prog" where
  "return x s = (Return x, s)"

definition bind :: "'a prog \<Rightarrow> ('a \<Rightarrow> 'b prog) \<Rightarrow> 'b prog" where
  "bind m f s =
     (case m s of
        (Return x, s') \<Rightarrow> f x s'
      | (Exit n, s') \<Rightarrow> (Exit n, s')
      | (Raise e, s') \<Rightarrow> (Raise e, s')
      | (Blocked, s') \<Rightarrow> (Blocked, s'))"

definition emit :: "effect \<Rightarrow> unit prog" where
  "emit e s = (Return (), s\<lparr>trace := trace s @ [e]\<rparr>)"

definition print :: "string \<Rightarrow> unit prog" where
  "print msg = emit (Print msg)"

definition sys_exit :: "int \<Rightarrow> 'a prog" where
  "sys_exit n s = (Exit n, s)"

definition raise :: "pyexc \<Rightarrow> 'a prog" where
  "raise e s = (Raise e, s)"

text \<open>
  The script calls \<^verbatim>\<open>os.makedirs(p, exist_ok=True)\<close> only on the directory the browser
  returned, which \<^verbatim>\<open>os.listdir\<close> has just listed: the call finds the directory there.
\<close>

definition os_makedirs :: "string \<Rightarrow> unit prog" where
  "os_makedirs p = emit (Makedirs p)"

text \<open>
  \<^verbatim>\<open>os.remove\<close> and \<^verbatim>\<open>shutil.copy\<close> either do their work or raise, and then nothing is
  removed or copied.
\<close>

definition os_remove :: "env \<Rightarrow> string \<Rightarrow> unit prog" where
  "os_remove env p =
     (case remove_error env p of
        None \<Rightarrow> emit (Remove p)
      | Some e \<Rightarrow> raise e)"

definition shutil_copy :: "env \<Rightarrow> string \<Rightarrow> string \<Rightarrow> unit prog" where
  "shutil_copy env src dst =
     (case copy_error env src dst of
        None \<Rightarrow> emit (Copy src dst)
      | Some e \<Rightarrow> raise e)"

definition subprocess_run :: "string list \<Rightarrow> completed prog" where
  "subprocess_run cmd s =
     (case responses s of
        [] \<Rightarrow> (Blocked, s\<lparr>trace := trace s @ [Subprocess cmd]\<rparr>)
      | r # rs \<Rightarrow> (Return r, s\<lparr>trace := trace s @ [Subprocess cmd], responses := rs\<rparr>))"

text \<open>\<^verbatim>\<open>input(prompt)\<close> raises \<^verbatim>\<open>EOFError\<close> at the end of the input.\<close>

definition input :: "string \<Rightarrow> string prog" where
  "input prompt s =
     (case keyboard s of
        [] \<Rightarrow> (Raise EOFError, s\<lparr>trace := trace s @ [Input prompt]\<rparr>)
      | l # ls \<Rightarrow> (Return l, s\<lparr>trace := trace s @ [Input prompt], keyboard := ls\<rparr>))"

definition abspath :: "env \<Rightarrow> string \<Rightarrow> string" where
  "abspath env path = normpath (if isabs path then path else join (getcwd env) path)"

subsection \<open>\<^verbatim>\<open>run_command\<close> and \<^verbatim>\<open>check_dependencies\<close>\<close>

text \<open>
  \<^verbatim>\<open>run_command\<close> returns the captured output, or \<^verbatim>\<open>True\<close>; with \<^verbatim>\<open>check=True\<close> a
  return code other than 0 raises \<^verbatim>\<open>CalledProcessError\<close>, which is caught, reported and
  turned into \<^verbatim>\<open>False\<close>.
\<close>

datatype run_result = RStr string | RBool bool

definition run_command :: "string list \<Rightarrow> bool \<Rightarrow> run_result prog" where
  "run_command cmd capture_output =
     bind (subprocess_run cmd) (\<lambda>result.
       if returncode result \<noteq> 0
       then bind (emit (PrintError cmd)) (\<lambda>_. return (RBool False))
       else if capture_output then return (RStr (strip (stdout result)))
       else return (RBool True))"

text \<open>
  The text of a list of plain strings as an f-string prints it. \<^verbatim>\<open>list(set(packages))\<close>
  keeps one copy of each package, in an order Python leaves open; \<^const>\<open>remdups\<close>
  fixes one.
\<close>

definition repr_list :: "string list \<Rightarrow> string" where
  "repr_list xs = ''['' @ str_join '', '' (map (\<lambda>x. [CHR 0x27] @ x @ [CHR 0x27]) xs) @ '']''"

definition package_of :: "string \<Rightarrow> string" where
  "package_of m =
     (if m = ''ovmf'' then ''ovmf''
      else if prefix ''qemu'' m then ''qemu-system-x86''
      else m)"

definition check_dependencies :: "env \<Rightarrow> unit prog" where
  "check_dependencies env =
     (let deps = [''qemu-system-x86_64'', ''qemu-img'', ''dialog''];
          missing = filter (\<lambda>d. \<not> which env d) deps;
          missing = (if \<not> path_exists env OVMF_CODE then missing @ [''ovmf''] else missing)
      in if missing \<noteq> [] then
           bind (print (''Missing dependencies: '' @ str_join '', '' missing)) (\<lambda>_.
           bind (input ''Do you want to install them using apt? (y/n): '') (\<lambda>choice.
           if choice = ''y'' \<or> choice = ''Y'' then
             (let packages = remdups (map package_of missing)
              in bind (print (''Installing: '' @ repr_list packages)) (\<lambda>_.
                 bind (run_command [''sudo'', ''apt'', ''update''] False) (\<lambda>_.
                 bind (run_command ([''sudo'', ''apt'', ''install'', ''-y''] @ packages) False) (\<lambda>_.
                 return ()))))
           else
             bind (print ''Cannot proceed without dependencies.'') (\<lambda>_. sys_exit 1)))
         else return ())"

subsection \<open>The dialogs\<close>

text \<open>
  Each function runs \<^verbatim>\<open>dialog\<close> with the argument list \<^verbatim>\<open>cmd\<close> and reads its
  return code; the ones that return a value read it from the standard error of the
  process, stripped.
\<close>

definition dialog_input_cmd :: "string \<Rightarrow> string \<Rightarrow> string \<Rightarrow> string list" where
  "dialog_input_cmd title prompt dflt =
     [''dialog'', ''--backtitle'', BACKTITLE, ''--title'', title,
      ''--inputbox'', prompt, ''10'', ''60'', dflt]"

definition dialog_input :: "string \<Rightarrow> string \<Rightarrow> string \<Rightarrow> string option prog" where
  "dialog_input title prompt dflt =
     bind (subprocess_run (dialog_input_cmd title prompt dflt)) (\<lambda>result.
       if returncode result = 0 then return (Some (strip (stderr result))) else return None)"

definition dialog_fselect_cmd :: "string \<Rightarrow> string \<Rightarrow> string list" where
  "dialog_fselect_cmd title path = [''dialog'', ''--title'', title, ''--fselect'', path, ''15'', ''70'']"

definition dialog_fselect :: "string \<Rightarrow> string \<Rightarrow> string option prog" where
  "dialog_fselect title path =
     bind (subprocess_run (dialog_fselect_cmd title path)) (\<lambda>result.
       if returncode result = 0 then return (Some (strip (stderr result))) else return None)"

definition dialog_dselect_cmd :: "string \<Rightarrow> string \<Rightarrow> string list" where
  "dialog_dselect_cmd title path = [''dialog'', ''--title'', title, ''--dselect'', path, ''15'', ''70'']"

definition dialog_dselect :: "string \<Rightarrow> string \<Rightarrow> string option prog" where
  "dialog_dselect title path =
     bind (subprocess_run (dialog_dselect_cmd title path)) (\<lambda>result.
       if returncode result = 0 then return (Some (strip (stderr result))) else return None)"

definition flattened :: "(string \<times> string) list \<Rightarrow> string list" where
  "flattened choices = concat (map (\<lambda>(tag, item). [tag, item]) choices)"

definition dialog_menu_cmd ::
  "string \<Rightarrow> string \<Rightarrow> (string \<times> string) list \<Rightarrow> nat \<Rightarrow> nat \<Rightarrow> string list" where
  "dialog_menu_cmd title prompt choices height width =
     [''dialog'', ''--backtitle'', BACKTITLE, ''--title'', title,
      ''--menu'', prompt, str height, str width, str (length choices)]
     @ flattened choices"

definition dialog_menu ::
  "string \<Rightarrow> string \<Rightarrow> (string \<times> string) list \<Rightarrow> nat \<Rightarrow> nat \<Rightarrow> string option prog" where
  "dialog_menu title prompt choices height width =
     bind (subprocess_run (dialog_menu_cmd title prompt choices height width)) (\<lambda>result.
       if returncode result = 0 then return (Some (strip (stderr result))) else return None)"

definition dialog_yesno_cmd :: "string \<Rightarrow> string \<Rightarrow> string \<Rightarrow> string \<Rightarrow> string list" where
  "dialog_yesno_cmd title prompt yes_label no_label =
     [''dialog'', ''--backtitle'', BACKTITLE, ''--title'', title,
      ''--yes-label'', yes_label, ''--no-label'', no_label,
      ''--yesno'', prompt, ''10'', ''60'']"

definition dialog_yesno :: "string \<Rightarrow> string \<Rightarrow> string \<Rightarrow> string \<Rightarrow> bool prog" where
  "dialog_yesno title prompt yes_label no_label =
     bind (subprocess_run (dialog_yesno_cmd title prompt yes_label no_label)) (\<lambda>result.
       return (returncode result = 0))"

subsection \<open>\<^verbatim>\<open>browse_path\<close>\<close>

text \<open>
  Lines 104 to 118: the choices of one menu, built from the listing \<open>items\<close> of the
  current directory. \<^verbatim>\<open>sorted\<close> orders strings by their characters, as \<^const>\<open>sort\<close>
  does.
\<close>

definition browse_dirs :: "env \<Rightarrow> string \<Rightarrow> string list \<Rightarrow> string list" where
  "browse_dirs env current_path items =
     sort (filter (\<lambda>d. isdir env (join current_path d)) items)"

definition browse_files :: "env \<Rightarrow> string \<Rightarrow> string list \<Rightarrow> string list" where
  "browse_files env current_path items =
     sort (filter (\<lambda>f. isfile env (join current_path f)) items)"

definition browse_choices ::
  "env \<Rightarrow> bool \<Rightarrow> string \<Rightarrow> string list \<Rightarrow> (string \<times> string) list" where
  "browse_choices env select_dir current_path items =
     (if select_dir
      then [(''.'', ''--> SELECT THIS DIRECTORY: '' @ current_path @ '' <--'')]
      else [])
     @ [(''..'', ''../ (Go Up)'')]
     @ map (\<lambda>d. (d @ ''/'', ''(Dir)'')) (browse_dirs env current_path items)
     @ map (\<lambda>f. (f, ''(File)'')) (browse_files env current_path items)"

text \<open>
  Lines 123 to 138: what the loop does with the selection the menu returned. It ends
  with the value \<^verbatim>\<open>browse_path\<close> returns, or goes on with a current path.
\<close>

datatype browse_next = Continue string | Finished "string option"

definition browse_select :: "bool \<Rightarrow> string \<Rightarrow> string option \<Rightarrow> browse_next" where
  "browse_select select_dir current_path selection =
     (case selection of
        None \<Rightarrow> Finished None
      | Some selection \<Rightarrow>
          if selection = ''.'' then Finished (Some current_path)
          else if selection = ''..'' then Continue (dirname current_path)
          else if suffix ''/'' selection then Continue (join current_path (butlast selection))
          else (let full_path = join current_path selection
                in if select_dir then Continue current_path
                   else Finished (Some full_path)))"

definition browse_prompt :: "string \<Rightarrow> bool \<Rightarrow> string" where
  "browse_prompt current_path select_dir =
     ''Current Path: '' @ current_path @ [CHR 0x0A] @ ''Select a ''
       @ (if select_dir then ''directory'' else ''file'') @ '':''"

text \<open>One pass through the body of \<^verbatim>\<open>while True\<close> (lines 97 to 138).\<close>

definition browse_step :: "env \<Rightarrow> bool \<Rightarrow> string \<Rightarrow> string \<Rightarrow> browse_next prog" where
  "browse_step env select_dir title current_path =
     (case listdir env current_path of
        Inl PermissionError \<Rightarrow>
          bind (dialog_yesno ''Error'' (''Permission denied: '' @ current_path) ''Yes'' ''No'') (\<lambda>_.
          return (Continue (dirname current_path)))
      | Inl e \<Rightarrow> raise e
      | Inr items \<Rightarrow>
          (let choices = browse_choices env select_dir current_path items;
               prompt = browse_prompt current_path select_dir
           in bind (dialog_menu title prompt choices 20 75) (\<lambda>selection.
              return (browse_select select_dir current_path selection))))"

lemma browse_step_consumes:
  assumes "browse_step env select_dir title current_path s = (Return (Continue p), s')"
  shows "length (responses s') < length (responses s)"
proof (cases "responses s")
  case Nil
  then show ?thesis
    using assms
    by (auto simp: browse_step_def bind_def return_def raise_def dialog_yesno_def dialog_menu_def
        subprocess_run_def Let_def split: sum.splits pyexc.splits)
next
  case (Cons r rs)
  then have "responses s' = rs"
    using assms
    by (auto simp: browse_step_def bind_def return_def raise_def dialog_yesno_def dialog_menu_def
        subprocess_run_def Let_def split: sum.splits pyexc.splits if_splits option.splits)
  then show ?thesis using Cons by simp
qed

function browse_loop :: "env \<Rightarrow> bool \<Rightarrow> string \<Rightarrow> string \<Rightarrow> string option prog" where
  "browse_loop env select_dir title current_path s =
     (case browse_step env select_dir title current_path s of
        (Return (Continue p), s') \<Rightarrow> browse_loop env select_dir title p s'
      | (Return (Finished r), s') \<Rightarrow> (Return r, s')
      | (Exit n, s') \<Rightarrow> (Exit n, s')
      | (Raise e, s') \<Rightarrow> (Raise e, s')
      | (Blocked, s') \<Rightarrow> (Blocked, s'))"
  by pat_completeness auto
termination
  by (relation "measure (\<lambda>(env, select_dir, title, current_path, s). length (responses s))")
     (auto dest: browse_step_consumes [OF sym])

declare browse_loop.simps [simp del]

definition browse_path :: "env \<Rightarrow> string \<Rightarrow> bool \<Rightarrow> string \<Rightarrow> string option prog" where
  "browse_path env start_path select_dir title =
     (let current_path = abspath env start_path;
          current_path = (if \<not> isdir env current_path then home env else current_path)
      in browse_loop env select_dir title current_path)"

subsection \<open>\<^verbatim>\<open>main\<close>\<close>

text \<open>Lines 171 to 187: the arguments every launch has, and the ones of UEFI.\<close>

definition qemu_args_base :: "string \<Rightarrow> string list" where
  "qemu_args_base disk =
     [QEMU_BIN,
      ''-enable-kvm'',
      ''-m'', ''2048'',
      ''-smp'', ''4'',
      ''-cpu'', ''host'',
      ''-drive'', ''file='' @ disk @ '',format=qcow2,if=virtio'',
      ''-netdev'', ''user,id=net0'',
      ''-device'', ''virtio-net-pci,netdev=net0'',
      ''-display'', ''gtk'']"

definition qemu_args_uefi :: "string \<Rightarrow> string list" where
  "qemu_args_uefi vars =
     [''-drive'', ''if=pflash,format=raw,readonly=on,file='' @ OVMF_CODE,
      ''-drive'', ''if=pflash,format=raw,file='' @ vars]"

definition mode_name :: "bool \<Rightarrow> string" where
  "mode_name is_uefi = (if is_uefi then ''UEFI'' else ''BIOS'')"

text \<open>Lines 189 to 207: the branch \<^verbatim>\<open>mode == "install"\<close>.\<close>

definition install_mode ::
  "env \<Rightarrow> string \<Rightarrow> string \<Rightarrow> string \<Rightarrow> bool \<Rightarrow> string list \<Rightarrow> string list prog" where
  "install_mode env iso_path disk vars is_uefi qemu_args =
     bind (print (''Starting INSTALL mode ('' @ mode_name is_uefi @ '')'')) (\<lambda>_.
     bind (if path_exists env disk
           then bind (dialog_yesno ''Disk Exists''
                        (''Disk '' @ disk @ '' already exists. Overwrite?'') ''Yes'' ''No'') (\<lambda>yes.
                  if yes then os_remove env disk
                  else bind (print ''Aborting.'') (\<lambda>_. sys_exit 1))
           else return ()) (\<lambda>_.
     bind (run_command [''qemu-img'', ''create'', ''-f'', ''qcow2'', disk, ''20G''] False) (\<lambda>_.
     bind (if is_uefi
           then bind (if path_exists env vars then os_remove env vars else return ()) (\<lambda>_.
                shutil_copy env OVMF_VARS_TEMPLATE vars)
           else return ()) (\<lambda>_.
     return (qemu_args @ [''-cdrom'', iso_path, ''-boot'', ''order=d''])))))"

text \<open>Lines 209 to 215: the other branch, run mode.\<close>

definition run_mode :: "env \<Rightarrow> string \<Rightarrow> bool \<Rightarrow> string list \<Rightarrow> string list prog" where
  "run_mode env disk is_uefi qemu_args =
     (if \<not> path_exists env disk
      then bind (print (''Disk not found: '' @ disk @ ''. Run install first.'')) (\<lambda>_. sys_exit 1)
      else bind (print (''Starting RUN mode ('' @ mode_name is_uefi @ '')'')) (\<lambda>_.
           return (qemu_args @ [''-boot'', ''order=c''])))"

text \<open>Lines 165 to 215: from the paths to the argument list of the launch.\<close>

definition build_args :: "env \<Rightarrow> string \<Rightarrow> string \<Rightarrow> bool \<Rightarrow> string \<Rightarrow> string list prog" where
  "build_args env iso_path vm_dir is_uefi mode =
     (let disk = disk_path iso_path vm_dir is_uefi;
          vars = vars_path iso_path vm_dir;
          qemu_args = qemu_args_base disk @ (if is_uefi then qemu_args_uefi vars else [])
      in if mode = ''install'' then install_mode env iso_path disk vars is_uefi qemu_args
         else run_mode env disk is_uefi qemu_args)"

text \<open>Line 227 and 228: the arguments of the second launch, from those of the first.\<close>

definition new_args :: "string \<Rightarrow> string list \<Rightarrow> string list" where
  "new_args iso_path qemu_args =
     filter (\<lambda>arg. arg \<notin> set [''-cdrom'', iso_path, ''order=d'', ''-boot'']) qemu_args
     @ [''-boot'', ''order=c'']"

text \<open>Lines 218 to 229: the launch, and after an installation the offer to run.\<close>

definition launch :: "string \<Rightarrow> string \<Rightarrow> string list \<Rightarrow> unit prog" where
  "launch iso_path mode qemu_args =
     bind (print (''Launching QEMU: '' @ str_join '' '' qemu_args)) (\<lambda>_.
     bind (subprocess_run qemu_args) (\<lambda>_.
     if mode = ''install'' then
       bind (dialog_yesno ''Install Complete''
               ''Installation process finished. Do you want to run the VM now from the virtual drive?''
               ''Yes'' ''No'') (\<lambda>yes.
         if yes then
           bind (print ''Restarting VM in RUN mode...'') (\<lambda>_.
           bind (subprocess_run (new_args iso_path qemu_args)) (\<lambda>_.
           return ()))
         else return ())
     else return ()))"

text \<open>
  \<^verbatim>\<open>main\<close>, by its numbered steps, the last one first. A step takes what the steps
  before it have chosen.
\<close>

definition main_install_or_run :: "env \<Rightarrow> string \<Rightarrow> string \<Rightarrow> bool \<Rightarrow> unit prog" where
  "main_install_or_run env iso_path vm_dir is_uefi =
     bind (dialog_menu ''Action'' ''Select action:''
             [(''install'', ''Install from ISO''), (''run'', ''Run installed machine from disk'')]
             15 60) (\<lambda>mode.
     case mode of
       None \<Rightarrow> sys_exit 1
     | Some mode \<Rightarrow>
         if mode = [] then sys_exit 1
         else bind (build_args env iso_path vm_dir is_uefi mode) (launch iso_path mode))"

definition main_bios_or_uefi :: "env \<Rightarrow> string \<Rightarrow> string \<Rightarrow> unit prog" where
  "main_bios_or_uefi env iso_path vm_dir =
     bind (dialog_yesno ''Boot Emulation Mode''
             (''CHOOSE THE BOOT MODE FOR THE MACHINE:'' @ [CHR 0x0A, CHR 0x0A]
                @ ''UEFI for a UEFI machine, BIOS for a BIOS machine'')
             ''UEFI'' ''BIOS'')
       (main_install_or_run env iso_path vm_dir)"

definition main_select_vm_dir :: "env \<Rightarrow> string \<Rightarrow> unit prog" where
  "main_select_vm_dir env iso_path =
     bind (browse_path env ''/home/alexia/'' True ''SELECT DIR TO INSTALL VIRTUAL DISK'') (\<lambda>vm_dir.
     case vm_dir of
       None \<Rightarrow> sys_exit 0
     | Some vm_dir \<Rightarrow>
         if vm_dir = [] then sys_exit 0
         else bind (os_makedirs vm_dir) (\<lambda>_. main_bios_or_uefi env iso_path vm_dir))"

definition main_select_iso :: "env \<Rightarrow> unit prog" where
  "main_select_iso env =
     bind (browse_path env ''/home/alexia/'' False ''SELECT ISO FILE'') (\<lambda>iso_path.
     case iso_path of
       None \<Rightarrow> sys_exit 0
     | Some iso_path \<Rightarrow>
         if iso_path = [] then sys_exit 0
         else if \<not> isfile env iso_path
           then bind (print (''Invalid ISO path: '' @ iso_path)) (\<lambda>_. sys_exit 1)
         else main_select_vm_dir env iso_path)"

definition main :: "env \<Rightarrow> unit prog" where
  "main env = bind (check_dependencies env) (\<lambda>_. main_select_iso env)"

subsection \<open>Reading a trace\<close>

text \<open>
  The effects that change the file system: making a directory, removing a file, copying
  one, and the creation of an image by \<^verbatim>\<open>qemu-img create\<close>. A dialog is a process
  started from the program \<^verbatim>\<open>dialog\<close>.
\<close>

fun mutation :: "effect \<Rightarrow> bool" where
  "mutation (Makedirs p) = True"
| "mutation (Remove p) = True"
| "mutation (Copy src dst) = True"
| "mutation (Subprocess cmd) = (take 2 cmd = [''qemu-img'', ''create''])"
| "mutation (Print msg) = False"
| "mutation (PrintError cmd) = False"
| "mutation (Input prompt) = False"

fun is_dialog :: "effect \<Rightarrow> bool" where
  "is_dialog (Subprocess cmd) = (take 1 cmd = [''dialog''])"
| "is_dialog (Makedirs p) = False"
| "is_dialog (Remove p) = False"
| "is_dialog (Copy src dst) = False"
| "is_dialog (Print msg) = False"
| "is_dialog (PrintError cmd) = False"
| "is_dialog (Input prompt) = False"

subsection \<open>An example machine\<close>

text \<open>
  A small file system on which the properties below are exercised: the home directory
  \<open>/home/alexia\<close> holds the directory \<open>vms\<close>, the image \<open>ubuntu.iso\<close>, a regular
  file whose name \<open>pipe \<close> ends in a space, and a FIFO named \<open>pipe\<close>; \<open>/root\<close> may
  not be listed. With \<open>installed\<close> the directory \<open>vms\<close> holds the disks and the
  variables file of an earlier installation. All dependencies are present, and every
  removal and copy succeeds.
\<close>

definition demo_installed :: "string list" where
  "demo_installed = [''ubuntu.qcow2'', ''ubuntu.uefi.qcow2'', ''OVMF_VARS_ubuntu.fd'']"

definition demo_env :: "bool \<Rightarrow> env" where
  "demo_env installed =
     \<lparr> which = (\<lambda>d. True),
       path_exists = (\<lambda>p. p \<in> set ([''/'', ''/home'', ''/root'', ''/home/alexia'', ''/home/alexia/vms'',
                                       ''/home/alexia/ubuntu.iso'', ''/home/alexia/pipe '',
                                       ''/home/alexia/pipe'', OVMF_CODE, OVMF_VARS_TEMPLATE]
                                      @ (if installed
                                         then map (join ''/home/alexia/vms'') demo_installed
                                         else []))),
       isdir = (\<lambda>p. p \<in> set [''/'', ''/home'', ''/root'', ''/home/alexia'', ''/home/alexia/vms'']),
       isfile = (\<lambda>p. p \<in> set ([''/home/alexia/ubuntu.iso'', ''/home/alexia/pipe '',
                                  OVMF_CODE, OVMF_VARS_TEMPLATE]
                                 @ (if installed
                                    then map (join ''/home/alexia/vms'') demo_installed
                                    else []))),
       listdir = (\<lambda>p. if p = ''/'' then Inr [''root'', ''home'']
                       else if p = ''/home'' then Inr [''alexia'']
                       else if p = ''/home/alexia'' then Inr [''vms'', ''ubuntu.iso'', ''pipe '', ''pipe'']
                       else if p = ''/home/alexia/vms'' then Inr (if installed then demo_installed else [])
                       else if p = ''/root'' then Inl PermissionError
                       else if p \<in> set [''/home/alexia/ubuntu.iso'', ''/home/alexia/pipe '',
                                        ''/home/alexia/pipe'']
                         then Inl NotADirectoryError
                       else Inl FileNotFoundError),
       remove_error = (\<lambda>p. None),
       copy_error = (\<lambda>src dst. None),
       getcwd = ''/home/alexia'',
       home = ''/home/alexia'' \<rparr>"

text \<open>
  The machine with the earlier installation, where the user may not write to the
  directory \<open>vms\<close>: nothing in it can be removed and nothing copied into it.
\<close>

definition demo_readonly :: env where
  "demo_readonly =
     (demo_env True)
       \<lparr> remove_error := (\<lambda>p. Some PermissionError),
         copy_error := (\<lambda>src dst. Some PermissionError) \<rparr>"

text \<open>What a dialog answers: a text on its standard error, or a cancellation.\<close>

definition answered :: "string \<Rightarrow> completed" where
  "answered out = \<lparr> returncode = 0, stdout = [], stderr = out \<rparr>"

definition cancelled :: completed where
  "cancelled = \<lparr> returncode = 1, stdout = [], stderr = [] \<rparr>"

text \<open>A process that ends with an error, as \<^verbatim>\<open>qemu-img\<close> does on a full disk.\<close>

definition failed :: completed where
  "failed = \<lparr> returncode = 1, stdout = [], stderr = ''qemu-img: Could not create image'' \<rparr>"

definition session :: "completed list \<Rightarrow> state" where
  "session rs = \<lparr> trace = [], responses = rs, keyboard = [] \<rparr>"

section \<open>Properties\<close>

subsection \<open>The artifact paths\<close>

lemma replace_Nil: "old \<noteq> [] \<Longrightarrow> replace old new [] = []"
  by (subst replace.simps) simp

lemma replace_skip:
  "old \<noteq> [] \<Longrightarrow> \<not> prefix old (c # s) \<Longrightarrow> replace old new (c # s) = c # replace old new s"
  by (subst replace.simps) simp

lemma replace_hit: "old \<noteq> [] \<Longrightarrow> replace old new (old @ s) = new @ replace old new s"
  by (subst replace.simps) simp

text \<open>
  An occurrence of \<open>.iso\<close> at the front of \<open>xs @ ''.iso''\<close> lies within \<open>xs\<close>, unless
  \<open>xs\<close> is empty: the dot of the suffix cannot stand for \<open>i\<close>, \<open>s\<close> or \<open>o\<close>.
\<close>

lemma prefix_iso_append:
  assumes "\<not> prefix ''.iso'' (c # cs)"
  shows "\<not> prefix ''.iso'' ((c # cs) @ ''.iso'')"
proof (cases cs)
  case Nil
  then show ?thesis by simp
next
  case (Cons b bs)
  note B = this
  show ?thesis
  proof (cases bs)
    case Nil
    then show ?thesis using B by simp
  next
    case (Cons d ds)
    note D = this
    show ?thesis
    proof (cases ds)
      case Nil
      then show ?thesis using B D by simp
    next
      case (Cons e es)
      then show ?thesis using B D assms by simp
    qed
  qed
qed

lemma replace_iso_suffix:
  "\<not> sublist ''.iso'' stem \<Longrightarrow> replace ''.iso'' '''' (stem @ ''.iso'') = stem"
proof (induction stem)
  case Nil
  have "replace ''.iso'' '''' (''.iso'' @ []) = '''' @ replace ''.iso'' '''' []"
    by (rule replace_hit) simp
  then show ?case by (simp add: replace_Nil)
next
  case (Cons c cs)
  have ns: "\<not> sublist ''.iso'' cs" using Cons.prems by (auto simp: sublist_Cons_right)
  have np: "\<not> prefix ''.iso'' (c # cs)" using Cons.prems by (auto simp: sublist_Cons_right)
  have "\<not> prefix ''.iso'' (c # (cs @ ''.iso''))"
    using prefix_iso_append[OF np] by simp
  then have "replace ''.iso'' '''' (c # (cs @ ''.iso'')) = c # replace ''.iso'' '''' (cs @ ''.iso'')"
    by (intro replace_skip) simp_all
  then show ?case using Cons.IH[OF ns] by simp
qed

lemma basename_no_slash: "CHR ''/'' \<notin> set (basename p)"
  using set_takeWhileD[of "CHR ''/''" "\<lambda>c. c \<noteq> CHR ''/''" "rev p"]
  by (auto simp: basename_def)

lemma join_plain:
  "a \<noteq> [] \<Longrightarrow> last a \<noteq> CHR ''/'' \<Longrightarrow> \<not> prefix ''/'' b \<Longrightarrow> join a b = a @ ''/'' @ b"
  by (auto simp: join_def suffix_def)

text \<open>
  C1, as stated: for every medium, storage directory and firmware mode the disk image is
  the storage directory, a slash, the base name of the medium with its extension
  stripped, \<open>.uefi\<close> under UEFI, and \<open>.qcow2\<close>; the variables file is the storage
  directory, \<open>/OVMF_VARS_\<close>, the same stem and \<open>.fd\<close>. The script does not strip an
  extension: it deletes the text \<open>.iso\<close>, so the medium \<open>disk.img\<close> keeps its
  \<open>.img\<close>; and \<^verbatim>\<open>os.path.join\<close> adds no slash to a directory that ends in one,
  so the storage directory \<open>/\<close> gives \<open>/a.qcow2\<close> where the formula has
  \<open>//a.qcow2\<close>.
\<close>

theorem artifact_paths_counterexample:
  "disk_path ''/media/disk.img'' ''/vms'' False = ''/vms/disk.img.qcow2''
   \<and> spec_disk_path ''/media/disk.img'' ''/vms'' False = ''/vms/disk.qcow2''
   \<and> vars_path ''/media/disk.img'' ''/vms'' = ''/vms/OVMF_VARS_disk.img.fd''
   \<and> spec_vars_path ''/media/disk.img'' ''/vms'' = ''/vms/OVMF_VARS_disk.fd''
   \<and> disk_path ''/media/a.iso'' ''/'' False = ''/a.qcow2''
   \<and> spec_disk_path ''/media/a.iso'' ''/'' False = ''//a.qcow2''"
  by (simp add: disk_path_def disk_name_def vars_path_def basename_def replace.simps join_def
      suffix_to_prefix spec_disk_path_def spec_vars_path_def spec_strip_extension_def)

text \<open>
  C1, amended: when the base name of the medium is a stem followed by \<open>.iso\<close>, the stem
  does not contain \<open>.iso\<close>, and the storage directory is not empty and does not end in a
  slash, the disk image is the storage directory, a slash, the stem, \<open>.uefi\<close> under
  UEFI, and \<open>.qcow2\<close>, and the variables file is the storage directory,
  \<open>/OVMF_VARS_\<close>, the stem and \<open>.fd\<close>. Both paths are values of the functions
  \<^const>\<open>disk_path\<close> and \<^const>\<open>vars_path\<close> of the medium, the directory and the
  firmware mode, so equal selections give equal paths.
\<close>

theorem artifact_paths_iso:
  assumes "basename iso_path = stem @ ''.iso''"
    and "\<not> sublist ''.iso'' stem"
    and "vm_dir \<noteq> []" and "last vm_dir \<noteq> CHR ''/''"
  shows "disk_path iso_path vm_dir is_uefi
           = vm_dir @ ''/'' @ stem @ (if is_uefi then ''.uefi'' else '''') @ ''.qcow2''
       \<and> vars_path iso_path vm_dir = vm_dir @ ''/OVMF_VARS_'' @ stem @ ''.fd''"
proof -
  have r: "replace ''.iso'' '''' (basename iso_path) = stem"
    using assms(1,2) by (simp add: replace_iso_suffix)
  have "CHR ''/'' \<notin> set (stem @ ''.iso'')"
    using basename_no_slash[of iso_path] assms(1) by simp
  then have ns: "CHR ''/'' \<notin> set stem" by simp
  have n1: "\<not> prefix ''/'' (stem @ (if is_uefi then ''.uefi'' else '''') @ ''.qcow2'')"
    using ns by (cases stem) auto
  have d: "disk_path iso_path vm_dir is_uefi
           = vm_dir @ ''/'' @ stem @ (if is_uefi then ''.uefi'' else '''') @ ''.qcow2''"
    unfolding disk_path_def disk_name_def r using join_plain[OF assms(3,4) n1] by simp
  have n2: "\<not> prefix ''/'' (''OVMF_VARS_'' @ stem @ ''.fd'')" by simp
  have v: "vars_path iso_path vm_dir = vm_dir @ ''/OVMF_VARS_'' @ stem @ ''.fd''"
    unfolding vars_path_def r using join_plain[OF assms(3,4) n2] by simp
  show ?thesis using d v by simp
qed

theorem artifact_paths_iso_witness:
  "basename ''/media/ubuntu-24.04.iso'' = ''ubuntu-24.04'' @ ''.iso''
   \<and> \<not> sublist ''.iso'' ''ubuntu-24.04''
   \<and> disk_path ''/media/ubuntu-24.04.iso'' ''/vms/ubuntu'' True
       = ''/vms/ubuntu/ubuntu-24.04.uefi.qcow2''
   \<and> disk_path ''/media/ubuntu-24.04.iso'' ''/vms/ubuntu'' False
       = ''/vms/ubuntu/ubuntu-24.04.qcow2''
   \<and> vars_path ''/media/ubuntu-24.04.iso'' ''/vms/ubuntu''
       = ''/vms/ubuntu/OVMF_VARS_ubuntu-24.04.fd''"
proof -
  have b: "basename ''/media/ubuntu-24.04.iso'' = ''ubuntu-24.04'' @ ''.iso''"
    by (simp add: basename_def)
  have s: "\<not> sublist ''.iso'' ''ubuntu-24.04''"
    by (simp add: sublist_Cons_right)
  have d: "''/vms/ubuntu'' \<noteq> []" by simp
  have l: "last ''/vms/ubuntu'' \<noteq> CHR ''/''" by simp
  show ?thesis
    using b s artifact_paths_iso[OF b s d l, of True] artifact_paths_iso[OF b s d l, of False]
    by simp
qed

subsection \<open>Running the primitives\<close>

lemma print_run: "print msg s = (Return (), s\<lparr>trace := trace s @ [Print msg]\<rparr>)"
  by (simp add: print_def emit_def)

lemma os_remove_run:
  "os_remove env p s
     = (case remove_error env p of
          None \<Rightarrow> (Return (), s\<lparr>trace := trace s @ [Remove p]\<rparr>)
        | Some e \<Rightarrow> (Raise e, s))"
  by (simp add: os_remove_def emit_def raise_def split: option.splits)

lemma os_makedirs_run: "os_makedirs p s = (Return (), s\<lparr>trace := trace s @ [Makedirs p]\<rparr>)"
  by (simp add: os_makedirs_def emit_def)

lemma shutil_copy_run:
  "shutil_copy env src dst s
     = (case copy_error env src dst of
          None \<Rightarrow> (Return (), s\<lparr>trace := trace s @ [Copy src dst]\<rparr>)
        | Some e \<Rightarrow> (Raise e, s))"
  by (simp add: shutil_copy_def emit_def raise_def split: option.splits)

lemma subprocess_run_run:
  "responses s = r # rs \<Longrightarrow>
   subprocess_run cmd s = (Return r, s\<lparr>trace := trace s @ [Subprocess cmd], responses := rs\<rparr>)"
  by (simp add: subprocess_run_def)

lemma subprocess_run_blocked:
  "responses s = [] \<Longrightarrow>
   subprocess_run cmd s = (Blocked, s\<lparr>trace := trace s @ [Subprocess cmd]\<rparr>)"
  by (simp add: subprocess_run_def)

lemma dialog_yesno_run:
  "responses s = r # rs \<Longrightarrow>
   dialog_yesno title prompt yes_label no_label s
     = (Return (returncode r = 0),
        s\<lparr>trace := trace s @ [Subprocess (dialog_yesno_cmd title prompt yes_label no_label)],
          responses := rs\<rparr>)"
  by (simp add: dialog_yesno_def bind_def subprocess_run_def return_def)

lemma dialog_menu_run:
  "responses s = r # rs \<Longrightarrow>
   dialog_menu title prompt choices height width s
     = (Return (if returncode r = 0 then Some (strip (stderr r)) else None),
        s\<lparr>trace := trace s @ [Subprocess (dialog_menu_cmd title prompt choices height width)],
          responses := rs\<rparr>)"
  by (simp add: dialog_menu_def bind_def subprocess_run_def return_def)

lemma run_command_run:
  "responses s = r # rs \<Longrightarrow>
   run_command cmd False s
     = (Return (RBool (returncode r = 0)),
        s\<lparr>trace := trace s @ Subprocess cmd # (if returncode r \<noteq> 0 then [PrintError cmd] else []),
          responses := rs\<rparr>)"
  by (simp add: run_command_def bind_def subprocess_run_def return_def emit_def)

lemmas run_simps = bind_def return_def sys_exit_def raise_def print_run os_remove_run
  os_makedirs_run shutil_copy_run subprocess_run_run dialog_yesno_run dialog_menu_run
  run_command_run

lemma bind_ReturnD:
  assumes "bind m f s = (Return r, s')"
  obtains x s1 where "m s = (Return x, s1)" and "f x s1 = (Return r, s')"
  using assms by (auto simp: bind_def split: prod.splits outcome.splits)

subsection \<open>Install mode\<close>

lemma install_mode_declined:
  assumes "path_exists env disk" and "responses s = c # rs" and "returncode c \<noteq> 0"
  shows "install_mode env iso_path disk vars is_uefi qemu_args s
     = (Exit 1,
        s\<lparr>trace := trace s @
           [Print (''Starting INSTALL mode ('' @ mode_name is_uefi @ '')''),
            Subprocess (dialog_yesno_cmd ''Disk Exists''
                          (''Disk '' @ disk @ '' already exists. Overwrite?'') ''Yes'' ''No''),
            Print ''Aborting.''],
          responses := rs\<rparr>)"
  using assms by (simp add: install_mode_def run_simps)

lemma install_mode_denied:
  assumes "path_exists env disk" and "responses s = c # rs" and "returncode c = 0"
    and "remove_error env disk = Some e"
  shows "install_mode env iso_path disk vars is_uefi qemu_args s
     = (Raise e,
        s\<lparr>trace := trace s @
           [Print (''Starting INSTALL mode ('' @ mode_name is_uefi @ '')''),
            Subprocess (dialog_yesno_cmd ''Disk Exists''
                          (''Disk '' @ disk @ '' already exists. Overwrite?'') ''Yes'' ''No'')],
          responses := rs\<rparr>)"
  using assms by (simp add: install_mode_def run_simps)

text \<open>
  The sessions in which \<^verbatim>\<open>qemu-img create\<close> is reached, and what they have done when
  \<^verbatim>\<open>run_command\<close> returns: \<open>q\<close> is the result of \<^verbatim>\<open>qemu-img\<close>.
\<close>

lemma install_mode_created:
  assumes "if path_exists env disk
           then responses s = c # q # rs \<and> returncode c = 0 \<and> remove_error env disk = None
           else responses s = q # rs"
  shows "install_mode env iso_path disk vars is_uefi qemu_args s
     = bind (if is_uefi
             then bind (if path_exists env vars then os_remove env vars else return ()) (\<lambda>_.
                  shutil_copy env OVMF_VARS_TEMPLATE vars)
             else return ()) (\<lambda>_.
         return (qemu_args @ [''-cdrom'', iso_path, ''-boot'', ''order=d'']))
         (s\<lparr>trace := trace s
             @ [Print (''Starting INSTALL mode ('' @ mode_name is_uefi @ '')'')]
             @ (if path_exists env disk
                then [Subprocess (dialog_yesno_cmd ''Disk Exists''
                                    (''Disk '' @ disk @ '' already exists. Overwrite?'')
                                    ''Yes'' ''No''),
                      Remove disk]
                else [])
             @ [Subprocess [''qemu-img'', ''create'', ''-f'', ''qcow2'', disk, ''20G'']]
             @ (if returncode q \<noteq> 0
                then [PrintError [''qemu-img'', ''create'', ''-f'', ''qcow2'', disk, ''20G'']]
                else []),
           responses := rs\<rparr>)"
proof (cases "path_exists env disk")
  case True
  then have "responses s = c # q # rs" "returncode c = 0" "remove_error env disk = None"
    using assms by simp_all
  then show ?thesis
    using True
    by (simp add: install_mode_def bind_def print_run dialog_yesno_run os_remove_run
        run_command_run)
next
  case False
  then have "responses s = q # rs"
    using assms by simp
  then show ?thesis
    using False by (simp add: install_mode_def bind_def return_def print_run run_command_run)
qed

lemma install_mode_overwrite:
  assumes "path_exists env disk" and "responses s = c # q # rs" and "returncode c = 0"
    and "remove_error env disk = None"
    and "is_uefi \<and> path_exists env vars \<longrightarrow> remove_error env vars = None"
    and "is_uefi \<longrightarrow> copy_error env OVMF_VARS_TEMPLATE vars = None"
  shows "install_mode env iso_path disk vars is_uefi qemu_args s
     = (Return (qemu_args @ [''-cdrom'', iso_path, ''-boot'', ''order=d'']),
        s\<lparr>trace := trace s
            @ [Print (''Starting INSTALL mode ('' @ mode_name is_uefi @ '')''),
               Subprocess (dialog_yesno_cmd ''Disk Exists''
                             (''Disk '' @ disk @ '' already exists. Overwrite?'') ''Yes'' ''No''),
               Remove disk,
               Subprocess [''qemu-img'', ''create'', ''-f'', ''qcow2'', disk, ''20G'']]
            @ (if returncode q \<noteq> 0
               then [PrintError [''qemu-img'', ''create'', ''-f'', ''qcow2'', disk, ''20G'']]
               else [])
            @ (if is_uefi
               then (if path_exists env vars then [Remove vars] else [])
                    @ [Copy OVMF_VARS_TEMPLATE vars]
               else []),
          responses := rs\<rparr>)"
proof -
  have r: "if path_exists env disk
           then responses s = c # q # rs \<and> returncode c = 0 \<and> remove_error env disk = None
           else responses s = q # rs"
    using assms(1-4) by simp
  show ?thesis
    unfolding install_mode_created[OF r]
    using assms(1,5,6) by (simp add: run_simps)
qed

lemma install_mode_fresh:
  assumes "\<not> path_exists env disk" and "responses s = q # rs"
    and "is_uefi \<and> path_exists env vars \<longrightarrow> remove_error env vars = None"
    and "is_uefi \<longrightarrow> copy_error env OVMF_VARS_TEMPLATE vars = None"
  shows "install_mode env iso_path disk vars is_uefi qemu_args s
     = (Return (qemu_args @ [''-cdrom'', iso_path, ''-boot'', ''order=d'']),
        s\<lparr>trace := trace s
            @ [Print (''Starting INSTALL mode ('' @ mode_name is_uefi @ '')''),
               Subprocess [''qemu-img'', ''create'', ''-f'', ''qcow2'', disk, ''20G'']]
            @ (if returncode q \<noteq> 0
               then [PrintError [''qemu-img'', ''create'', ''-f'', ''qcow2'', disk, ''20G'']]
               else [])
            @ (if is_uefi
               then (if path_exists env vars then [Remove vars] else [])
                    @ [Copy OVMF_VARS_TEMPLATE vars]
               else []),
          responses := rs\<rparr>)"
proof -
  have r: "if path_exists env disk
           then responses s = q # q # rs \<and> returncode q = 0 \<and> remove_error env disk = None
           else responses s = q # rs"
    using assms(1,2) by simp
  show ?thesis
    unfolding install_mode_created[OF r]
    using assms(1,3,4) by (simp add: run_simps)
qed

lemma build_args_install:
  "build_args env iso_path vm_dir is_uefi ''install''
     = install_mode env iso_path (disk_path iso_path vm_dir is_uefi) (vars_path iso_path vm_dir)
         is_uefi
         (qemu_args_base (disk_path iso_path vm_dir is_uefi)
          @ (if is_uefi then qemu_args_uefi (vars_path iso_path vm_dir) else []))"
  by (simp add: build_args_def Let_def)

lemma build_args_run:
  "mode \<noteq> ''install'' \<Longrightarrow>
   build_args env iso_path vm_dir is_uefi mode
     = run_mode env (disk_path iso_path vm_dir is_uefi) is_uefi
         (qemu_args_base (disk_path iso_path vm_dir is_uefi)
          @ (if is_uefi then qemu_args_uefi (vars_path iso_path vm_dir) else []))"
  by (simp add: build_args_def Let_def)


subsection \<open>Run mode\<close>

lemma run_mode_missing:
  assumes "\<not> path_exists env disk"
  shows "run_mode env disk is_uefi qemu_args s
     = (Exit 1, s\<lparr>trace := trace s @ [Print (''Disk not found: '' @ disk @ ''. Run install first.'')]\<rparr>)"
  using assms by (simp add: run_mode_def run_simps)

lemma run_mode_present:
  assumes "path_exists env disk"
  shows "run_mode env disk is_uefi qemu_args s
     = (Return (qemu_args @ [''-boot'', ''order=c'']),
        s\<lparr>trace := trace s @ [Print (''Starting RUN mode ('' @ mode_name is_uefi @ '')'')]\<rparr>)"
  using assms by (simp add: run_mode_def run_simps)

lemma launch_run:
  assumes "mode \<noteq> ''install''" and "responses s = r # rs"
  shows "launch iso_path mode qemu_args s
     = (Return (),
        s\<lparr>trace := trace s @ [Print (''Launching QEMU: '' @ str_join '' '' qemu_args),
                              Subprocess qemu_args],
          responses := rs\<rparr>)"
  using assms by (simp add: launch_def run_simps)

text \<open>
  C5: in run mode (any mode other than \<open>install\<close>), with \<open>disk\<close> the derived disk
  path. If nothing exists at \<open>disk\<close>, building the arguments ends with
  \<^verbatim>\<open>sys.exit(1)\<close> after printing that the disk was not found and that install has to
  run first: no argument list is returned, the trace gains that one line and nothing
  else, so no file is touched and no process is started; the session, which launches
  only what the builder returns, ends the same way. If the disk exists, the list returned
  is the common arguments followed by \<open>-boot\<close> and \<open>order=c\<close>, and it is what is
  launched.
\<close>

theorem run_mode_session:
  fixes env :: env and iso_path vm_dir :: string and is_uefi :: bool
  defines "disk \<equiv> disk_path iso_path vm_dir is_uefi"
  defines "args \<equiv> qemu_args_base disk
                    @ (if is_uefi then qemu_args_uefi (vars_path iso_path vm_dir) else [])
                    @ [''-boot'', ''order=c'']"
    and "missing \<equiv> Print (''Disk not found: '' @ disk @ ''. Run install first.'')"
    and "start \<equiv> Print (''Starting RUN mode ('' @ mode_name is_uefi @ '')'')"
  shows
    "(mode \<noteq> ''install'' \<and> \<not> path_exists env disk \<longrightarrow>
        build_args env iso_path vm_dir is_uefi mode s = (Exit 1, s\<lparr>trace := trace s @ [missing]\<rparr>)
        \<and> bind (build_args env iso_path vm_dir is_uefi mode) (launch iso_path mode) s
            = (Exit 1, s\<lparr>trace := trace s @ [missing]\<rparr>))
   \<and> (mode \<noteq> ''install'' \<and> path_exists env disk \<longrightarrow>
        build_args env iso_path vm_dir is_uefi mode s = (Return args, s\<lparr>trace := trace s @ [start]\<rparr>))
   \<and> (mode \<noteq> ''install'' \<and> path_exists env disk \<and> responses s = r # rs \<longrightarrow>
        bind (build_args env iso_path vm_dir is_uefi mode) (launch iso_path mode) s
          = (Return (),
             s\<lparr>trace := trace s @ [start, Print (''Launching QEMU: '' @ str_join '' '' args),
                                   Subprocess args],
               responses := rs\<rparr>))"
proof (intro conjI impI; elim conjE)
  assume m: "mode \<noteq> ''install''" and n: "\<not> path_exists env disk"
  show b: "build_args env iso_path vm_dir is_uefi mode s = (Exit 1, s\<lparr>trace := trace s @ [missing]\<rparr>)"
    using n unfolding build_args_run[OF m] disk_def missing_def by (rule run_mode_missing)
  show "bind (build_args env iso_path vm_dir is_uefi mode) (launch iso_path mode) s
          = (Exit 1, s\<lparr>trace := trace s @ [missing]\<rparr>)"
    by (simp add: bind_def b)
next
  assume m: "mode \<noteq> ''install''" and e: "path_exists env disk"
  show "build_args env iso_path vm_dir is_uefi mode s = (Return args, s\<lparr>trace := trace s @ [start]\<rparr>)"
    using e unfolding build_args_run[OF m] disk_def args_def start_def
    by (simp add: run_mode_present)
next
  assume m: "mode \<noteq> ''install''" and e: "path_exists env disk" and r: "responses s = r # rs"
  have b: "build_args env iso_path vm_dir is_uefi mode s = (Return args, s\<lparr>trace := trace s @ [start]\<rparr>)"
    using e unfolding build_args_run[OF m] disk_def args_def start_def
    by (simp add: run_mode_present)
  have l: "launch iso_path mode args (s\<lparr>trace := trace s @ [start]\<rparr>)
             = (Return (),
                s\<lparr>trace := trace s @ [start, Print (''Launching QEMU: '' @ str_join '' '' args),
                                      Subprocess args],
                  responses := rs\<rparr>)"
    using r by (simp add: launch_run[OF m])
  show "bind (build_args env iso_path vm_dir is_uefi mode) (launch iso_path mode) s
          = (Return (),
             s\<lparr>trace := trace s @ [start, Print (''Launching QEMU: '' @ str_join '' '' args),
                                   Subprocess args],
               responses := rs\<rparr>)"
    by (simp add: bind_def b l)
qed

subsection \<open>The second launch\<close>

lemma install_mode_returns:
  assumes "install_mode env iso_path disk vars is_uefi qemu_args s = (Return r, s')"
  shows "r = qemu_args @ [''-cdrom'', iso_path, ''-boot'', ''order=d'']"
  using assms unfolding install_mode_def
  by (elim bind_ReturnD) (simp add: return_def)

lemma run_mode_returns:
  assumes "run_mode env disk is_uefi qemu_args s = (Return r, s')"
  shows "r = qemu_args @ [''-boot'', ''order=c'']"
  using assms by (cases "path_exists env disk") (simp_all add: run_mode_missing run_mode_present)

lemma isabs_Cons: "isabs p \<Longrightarrow> \<exists>rest. p = CHR ''/'' # rest"
  by (cases p) (simp_all add: isabs_def)

text \<open>
  No common argument starts with a slash, and none is \<open>-cdrom\<close>, \<open>-boot\<close> or
  \<open>order=d\<close>: the filter of line 227 keeps them all when the medium path is absolute.
\<close>

lemma new_args_keeps_common:
  assumes "isabs iso_path"
  shows "filter (\<lambda>arg. arg \<notin> set [''-cdrom'', iso_path, ''order=d'', ''-boot''])
           (qemu_args_base disk @ (if is_uefi then qemu_args_uefi vars else []))
         = qemu_args_base disk @ (if is_uefi then qemu_args_uefi vars else [])"
proof -
  obtain rest where "iso_path = CHR ''/'' # rest"
    using isabs_Cons[OF assms] by blast
  then show ?thesis
    by (simp add: qemu_args_base_def qemu_args_uefi_def QEMU_BIN_def OVMF_CODE_def)
qed

lemma new_args_of_install:
  assumes "isabs iso_path"
  shows "new_args iso_path
           (qemu_args_base disk @ (if is_uefi then qemu_args_uefi vars else [])
            @ [''-cdrom'', iso_path, ''-boot'', ''order=d''])
         = qemu_args_base disk @ (if is_uefi then qemu_args_uefi vars else [])
           @ [''-boot'', ''order=c'']"
proof -
  let ?keep = "\<lambda>arg. arg \<notin> set [''-cdrom'', iso_path, ''order=d'', ''-boot'']"
  let ?common = "qemu_args_base disk @ (if is_uefi then qemu_args_uefi vars else [])"
  have 1: "filter ?keep [''-cdrom'', iso_path, ''-boot'', ''order=d''] = []"
    by simp
  have "new_args iso_path (?common @ [''-cdrom'', iso_path, ''-boot'', ''order=d''])
          = filter ?keep ?common @ filter ?keep [''-cdrom'', iso_path, ''-boot'', ''order=d'']
            @ [''-boot'', ''order=c'']"
    unfolding new_args_def by (simp only: filter_append append_assoc)
  also have "\<dots> = ?common @ [''-boot'', ''order=c'']"
    unfolding 1 new_args_keeps_common[OF assms] by simp
  finally show ?thesis by simp
qed

lemma common_args_counts:
  fixes disk vars :: string and is_uefi :: bool
  assumes "isabs iso_path"
  defines "common \<equiv> qemu_args_base disk @ (if is_uefi then qemu_args_uefi vars else [])"
  shows "count_list common ''-boot'' = 0" and "count_list common ''order=c'' = 0"
    and "''-cdrom'' \<notin> set common" and "''order=d'' \<notin> set common" and "iso_path \<notin> set common"
proof -
  obtain rest where "iso_path = CHR ''/'' # rest"
    using isabs_Cons[OF assms(1)] by blast
  then show "count_list common ''-boot'' = 0" and "count_list common ''order=c'' = 0"
    and "''-cdrom'' \<notin> set common" and "''order=d'' \<notin> set common" and "iso_path \<notin> set common"
    by (simp_all add: common_def qemu_args_base_def qemu_args_uefi_def QEMU_BIN_def OVMF_CODE_def)
qed

text \<open>
  C2: let \<open>qemu_args\<close> be the argument list install mode has built for an absolute
  medium path (the browser returns absolute paths), and \<open>run_args\<close> the list run mode
  builds from the same medium, storage directory and firmware mode. The list of the
  second launch, \<^term>\<open>new_args iso_path qemu_args\<close>, is \<open>run_args\<close>; it contains
  neither \<open>-cdrom\<close> nor the medium path nor \<open>order=d\<close>, and \<open>-boot\<close> and
  \<open>order=c\<close> occur in it exactly once. It is the list the script launches after an
  installation when the offer to run is accepted.
\<close>

theorem new_args_is_run_args:
  assumes "isabs iso_path"
    and "build_args env iso_path vm_dir is_uefi ''install'' s = (Return qemu_args, s')"
    and "mode \<noteq> ''install''"
    and "build_args env' iso_path vm_dir is_uefi mode t = (Return run_args, t')"
  shows "new_args iso_path qemu_args = run_args
       \<and> ''-cdrom'' \<notin> set (new_args iso_path qemu_args)
       \<and> iso_path \<notin> set (new_args iso_path qemu_args)
       \<and> ''order=d'' \<notin> set (new_args iso_path qemu_args)
       \<and> count_list (new_args iso_path qemu_args) ''-boot'' = 1
       \<and> count_list (new_args iso_path qemu_args) ''order=c'' = 1
       \<and> (responses u = r1 # c # r2 # rs \<and> returncode c = 0 \<longrightarrow>
            launch iso_path ''install'' qemu_args u
              = (Return (),
                 u\<lparr>trace := trace u @
                      [Print (''Launching QEMU: '' @ str_join '' '' qemu_args),
                       Subprocess qemu_args,
                       Subprocess (dialog_yesno_cmd ''Install Complete''
                         ''Installation process finished. Do you want to run the VM now from the virtual drive?''
                         ''Yes'' ''No''),
                       Print ''Restarting VM in RUN mode...'',
                       Subprocess run_args],
                    responses := rs\<rparr>))"
proof -
  let ?disk = "disk_path iso_path vm_dir is_uefi"
  let ?vars = "vars_path iso_path vm_dir"
  let ?common = "qemu_args_base ?disk @ (if is_uefi then qemu_args_uefi ?vars else [])"
  have q: "qemu_args = ?common @ [''-cdrom'', iso_path, ''-boot'', ''order=d'']"
    using assms(2)[unfolded build_args_install] by (rule install_mode_returns)
  have r: "run_args = ?common @ [''-boot'', ''order=c'']"
    using assms(4)[unfolded build_args_run[OF assms(3)]] by (rule run_mode_returns)
  have n: "new_args iso_path qemu_args = run_args"
    unfolding q r using new_args_of_install[OF assms(1)] by simp
  obtain rest where i: "iso_path = CHR ''/'' # rest"
    using isabs_Cons[OF assms(1)] by blast
  note c = common_args_counts[OF assms(1), of ?disk is_uefi ?vars]
  have m: "''-cdrom'' \<notin> set run_args" "iso_path \<notin> set run_args" "''order=d'' \<notin> set run_args"
    unfolding r using c(3,4,5) i by simp_all
  have k: "count_list run_args ''-boot'' = 1" "count_list run_args ''order=c'' = 1"
    unfolding r using c(1,2) by simp_all
  have l: "responses u = r1 # c # r2 # rs \<and> returncode c = 0 \<longrightarrow>
            launch iso_path ''install'' qemu_args u
              = (Return (),
                 u\<lparr>trace := trace u @
                      [Print (''Launching QEMU: '' @ str_join '' '' qemu_args),
                       Subprocess qemu_args,
                       Subprocess (dialog_yesno_cmd ''Install Complete''
                         ''Installation process finished. Do you want to run the VM now from the virtual drive?''
                         ''Yes'' ''No''),
                       Print ''Restarting VM in RUN mode...'',
                       Subprocess run_args],
                    responses := rs\<rparr>)"
    unfolding n[symmetric] by (simp add: launch_def run_simps)
  show ?thesis using n m k l by simp
qed

subsection \<open>What building the arguments does to the file system\<close>

lemma install_mode_ReturnD:
  assumes "install_mode env iso_path disk vars is_uefi qemu_args s = (Return r, s')"
  obtains c q rs where
    "if path_exists env disk
     then responses s = c # q # rs \<and> returncode c = 0 \<and> remove_error env disk = None
     else responses s = q # rs"
proof (cases "path_exists env disk")
  case True
  note e = this
  show ?thesis
  proof (cases "responses s")
    case Nil
    then show ?thesis
      using assms e by (simp add: install_mode_def run_simps dialog_yesno_def subprocess_run_def)
  next
    case (Cons c rest)
    note c = this
    show ?thesis
    proof (cases "returncode c = 0")
      case False
      then show ?thesis using assms install_mode_declined[OF e c] by simp
    next
      case True
      note z = this
      show ?thesis
      proof (cases "remove_error env disk")
        case (Some x)
        then show ?thesis using assms install_mode_denied[OF e c z] by simp
      next
        case None
        note n = this
        show ?thesis
        proof (cases rest)
          case Nil
          then show ?thesis
            using assms e c z n
            by (simp add: install_mode_def run_simps run_command_def subprocess_run_def)
        next
          case (Cons q rs)
          then show ?thesis using that[of c q rs] e c z n by simp
        qed
      qed
    qed
  qed
next
  case False
  note e = this
  show ?thesis
  proof (cases "responses s")
    case Nil
    then show ?thesis
      using assms e by (simp add: install_mode_def run_simps run_command_def subprocess_run_def)
  next
    case (Cons q rs)
    then show ?thesis using that[of q q rs] e by simp
  qed
qed

text \<open>
  The changes to the file system of an install branch that returns, in the order they
  were made.
\<close>

lemma install_mode_mutations:
  assumes "install_mode env iso_path disk vars is_uefi qemu_args s = (Return r, s')"
  shows "filter mutation (trace s')
         = filter mutation (trace s)
           @ (if path_exists env disk then [Remove disk] else [])
           @ [Subprocess [''qemu-img'', ''create'', ''-f'', ''qcow2'', disk, ''20G'']]
           @ (if is_uefi
              then (if path_exists env vars then [Remove vars] else [])
                   @ [Copy OVMF_VARS_TEMPLATE vars]
              else [])"
proof -
  obtain c q rs where
    r: "if path_exists env disk
        then responses s = c # q # rs \<and> returncode c = 0 \<and> remove_error env disk = None
        else responses s = q # rs"
    using assms by (rule install_mode_ReturnD)
  note a = assms[unfolded install_mode_created[OF r]]
  show ?thesis
  proof (cases is_uefi)
    case False
    then show ?thesis
      using a by (auto simp: run_simps dialog_yesno_cmd_def)
  next
    case True
    note u = this
    show ?thesis
    proof (cases "copy_error env OVMF_VARS_TEMPLATE vars")
      case (Some x)
      then show ?thesis
        using a u by (auto simp: run_simps split: if_splits option.splits)
    next
      case None
      note k = this
      show ?thesis
      proof (cases "path_exists env vars")
        case False
        then show ?thesis
          using a u k by (auto simp: run_simps dialog_yesno_cmd_def)
      next
        case True
        note v = this
        show ?thesis
        proof (cases "remove_error env vars")
          case (Some x)
          then show ?thesis
            using a u v by (simp add: run_simps)
        next
          case None
          then show ?thesis
            using a u k v by (auto simp: run_simps dialog_yesno_cmd_def)
        qed
      qed
    qed
  qed
qed

lemma run_mode_trace:
  assumes "run_mode env disk is_uefi qemu_args s = (Return r, s')"
  shows "trace s' = trace s @ [Print (''Starting RUN mode ('' @ mode_name is_uefi @ '')'')]"
  using assms by (cases "path_exists env disk") (auto simp: run_mode_missing run_mode_present)

text \<open>
  C8, amended: the argument list that \<^const>\<open>build_args\<close> returns is determined by the
  medium, the storage directory, the firmware mode and the operating mode; the file
  system decides only whether a list is returned. In run mode building the list prints
  one line and changes no file. In install mode the script has no plan that another
  component executes: whenever a list is returned, the code that built it has itself,
  in this order, removed the disk if one existed, run
  \<^verbatim>\<open>qemu-img create -f qcow2 disk 20G\<close>, and under UEFI removed the variables file if
  one existed and copied the firmware template to the variables path. These are all the
  changes to the file system it has made.
\<close>

theorem build_args_effects:
  fixes env :: env and iso_path vm_dir :: string and is_uefi :: bool
  defines "disk \<equiv> disk_path iso_path vm_dir is_uefi"
    and "vars \<equiv> vars_path iso_path vm_dir"
  assumes "build_args env iso_path vm_dir is_uefi mode s = (Return args, s')"
  shows "args = qemu_args_base disk
                @ (if is_uefi then qemu_args_uefi vars else [])
                @ (if mode = ''install'' then [''-cdrom'', iso_path, ''-boot'', ''order=d'']
                   else [''-boot'', ''order=c''])
       \<and> (if mode = ''install''
          then filter mutation (trace s')
               = filter mutation (trace s)
                 @ (if path_exists env disk then [Remove disk] else [])
                 @ [Subprocess [''qemu-img'', ''create'', ''-f'', ''qcow2'', disk, ''20G'']]
                 @ (if is_uefi
                    then (if path_exists env vars then [Remove vars] else [])
                         @ [Copy OVMF_VARS_TEMPLATE vars]
                    else [])
          else trace s' = trace s @ [Print (''Starting RUN mode ('' @ mode_name is_uefi @ '')'')]
               \<and> filter mutation (trace s') = filter mutation (trace s))"
proof (cases "mode = ''install''")
  case True
  have i: "install_mode env iso_path disk vars is_uefi
             (qemu_args_base disk @ (if is_uefi then qemu_args_uefi vars else [])) s
           = (Return args, s')"
    using assms(3) unfolding True build_args_install disk_def vars_def .
  show ?thesis
    using install_mode_returns[OF i] install_mode_mutations[OF i] True by simp
next
  case False
  have r: "run_mode env disk is_uefi
             (qemu_args_base disk @ (if is_uefi then qemu_args_uefi vars else [])) s
           = (Return args, s')"
    using assms(3) unfolding build_args_run[OF False] disk_def vars_def .
  show ?thesis
    using run_mode_returns[OF r] run_mode_trace[OF r] False by simp
qed

subsection \<open>Cancelled dialogs\<close>

text \<open>
  C9: when \<^verbatim>\<open>dialog\<close> ends with a return code other than 0, \<^const>\<open>dialog_input\<close>,
  \<^const>\<open>dialog_fselect\<close>, \<^const>\<open>dialog_dselect\<close> and \<^const>\<open>dialog_menu\<close> return
  \<^verbatim>\<open>None\<close> and \<^const>\<open>dialog_yesno\<close> returns \<^verbatim>\<open>False\<close>: each returns, none raises
  or exits. So a cancelled firmware prompt does not end the session: \<^verbatim>\<open>main\<close> goes on
  to its step 4 with \<open>is_uefi\<close> false, which is BIOS.
\<close>

theorem dialogs_cancelled:
  assumes "responses s = r # rs" and "returncode r \<noteq> 0"
  shows "dialog_input title prompt dflt s
           = (Return None,
              s\<lparr>trace := trace s @ [Subprocess (dialog_input_cmd title prompt dflt)],
                responses := rs\<rparr>)
       \<and> dialog_fselect title path s
           = (Return None,
              s\<lparr>trace := trace s @ [Subprocess (dialog_fselect_cmd title path)],
                responses := rs\<rparr>)
       \<and> dialog_dselect title path s
           = (Return None,
              s\<lparr>trace := trace s @ [Subprocess (dialog_dselect_cmd title path)],
                responses := rs\<rparr>)
       \<and> dialog_menu title prompt choices height width s
           = (Return None,
              s\<lparr>trace := trace s @ [Subprocess (dialog_menu_cmd title prompt choices height width)],
                responses := rs\<rparr>)
       \<and> dialog_yesno title prompt yes_label no_label s
           = (Return False,
              s\<lparr>trace := trace s @ [Subprocess (dialog_yesno_cmd title prompt yes_label no_label)],
                responses := rs\<rparr>)
       \<and> main_bios_or_uefi env iso_path vm_dir s
           = main_install_or_run env iso_path vm_dir False
               (s\<lparr>trace := trace s @
                    [Subprocess (dialog_yesno_cmd ''Boot Emulation Mode''
                       (''CHOOSE THE BOOT MODE FOR THE MACHINE:'' @ [CHR 0x0A, CHR 0x0A]
                          @ ''UEFI for a UEFI machine, BIOS for a BIOS machine'')
                       ''UEFI'' ''BIOS'')],
                  responses := rs\<rparr>)"
  using assms
  by (simp add: dialog_input_def dialog_fselect_def dialog_dselect_def main_bios_or_uefi_def
      run_simps)

subsection \<open>The browser\<close>

lemma browse_step_denied:
  assumes "listdir env current_path = Inl PermissionError" and "responses s = r # rs"
  shows "browse_step env select_dir title current_path s
     = (Return (Continue (dirname current_path)),
        s\<lparr>trace := trace s @
             [Subprocess (dialog_yesno_cmd ''Error'' (''Permission denied: '' @ current_path)
                            ''Yes'' ''No'')],
          responses := rs\<rparr>)"
  using assms by (simp add: browse_step_def run_simps)

lemma browse_step_menu:
  assumes "listdir env current_path = Inr items" and "responses s = r # rs"
  shows "browse_step env select_dir title current_path s
     = (Return (browse_select select_dir current_path
                  (if returncode r = 0 then Some (strip (stderr r)) else None)),
        s\<lparr>trace := trace s @
             [Subprocess (dialog_menu_cmd title (browse_prompt current_path select_dir)
                            (browse_choices env select_dir current_path items) 20 75)],
          responses := rs\<rparr>)"
  using assms by (simp add: browse_step_def run_simps Let_def)

lemma browse_loop_Continue:
  "browse_step env select_dir title current_path s = (Return (Continue p), s') \<Longrightarrow>
   browse_loop env select_dir title current_path s = browse_loop env select_dir title p s'"
  by (subst browse_loop.simps) simp

lemma browse_loop_Finished:
  "browse_step env select_dir title current_path s = (Return (Finished r), s') \<Longrightarrow>
   browse_loop env select_dir title current_path s = (Return r, s')"
  by (subst browse_loop.simps) simp

text \<open>
  C6: the choices of a menu are, in this order, the row tagged \<open>.\<close> exactly when a
  directory is to be selected, the row tagged \<open>..\<close>, one row per directory tagged with
  its name and a slash, and one row per file tagged with its name; the directory names
  are the entries of the listing that are directories, in sorted order, and the file
  names are the entries that are regular files, in sorted order. These choices are what
  the browser puts into the menu it shows for a listing.
\<close>

theorem browse_choices_order:
  "browse_choices env select_dir current_path items
     = (if select_dir
        then [(''.'', ''--> SELECT THIS DIRECTORY: '' @ current_path @ '' <--'')] else [])
       @ [(''..'', ''../ (Go Up)'')]
       @ map (\<lambda>d. (d @ ''/'', ''(Dir)'')) (browse_dirs env current_path items)
       @ map (\<lambda>f. (f, ''(File)'')) (browse_files env current_path items)
   \<and> sorted (browse_dirs env current_path items)
   \<and> mset (browse_dirs env current_path items)
       = mset (filter (\<lambda>d. isdir env (join current_path d)) items)
   \<and> sorted (browse_files env current_path items)
   \<and> mset (browse_files env current_path items)
       = mset (filter (\<lambda>f. isfile env (join current_path f)) items)
   \<and> (listdir env current_path = Inr items \<and> responses s = r # rs \<longrightarrow>
        trace (snd (browse_step env select_dir title current_path s))
          = trace s @ [Subprocess (dialog_menu_cmd title (browse_prompt current_path select_dir)
                                     (browse_choices env select_dir current_path items) 20 75)])"
  by (simp add: browse_choices_def browse_dirs_def browse_files_def browse_step_menu)

text \<open>
  C7: when listing the current directory raises \<^verbatim>\<open>PermissionError\<close>, the browser
  shows the notice \<open>Permission denied\<close> in a dialog, which blocks until it is
  answered, and then the loop goes on from the parent directory whatever the answer
  was: the pass returns normally, it neither raises nor exits.
\<close>

theorem permission_denied_goes_up:
  assumes "listdir env current_path = Inl PermissionError"
  shows "(responses s = r # rs \<longrightarrow>
            browse_step env select_dir title current_path s
              = (Return (Continue (dirname current_path)),
                 s\<lparr>trace := trace s @
                      [Subprocess (dialog_yesno_cmd ''Error''
                                     (''Permission denied: '' @ current_path) ''Yes'' ''No'')],
                   responses := rs\<rparr>)
          \<and> browse_loop env select_dir title current_path s
              = browse_loop env select_dir title (dirname current_path)
                  (s\<lparr>trace := trace s @
                       [Subprocess (dialog_yesno_cmd ''Error''
                                      (''Permission denied: '' @ current_path) ''Yes'' ''No'')],
                     responses := rs\<rparr>))
       \<and> (responses s = [] \<longrightarrow>
            browse_loop env select_dir title current_path s
              = (Blocked,
                 s\<lparr>trace := trace s @
                      [Subprocess (dialog_yesno_cmd ''Error''
                                     (''Permission denied: '' @ current_path) ''Yes'' ''No'')]\<rparr>))"
proof (intro conjI impI)
  assume r: "responses s = r # rs"
  show "browse_step env select_dir title current_path s
          = (Return (Continue (dirname current_path)),
             s\<lparr>trace := trace s @
                  [Subprocess (dialog_yesno_cmd ''Error''
                                 (''Permission denied: '' @ current_path) ''Yes'' ''No'')],
               responses := rs\<rparr>)"
    using assms r by (rule browse_step_denied)
  then show "browse_loop env select_dir title current_path s
          = browse_loop env select_dir title (dirname current_path)
              (s\<lparr>trace := trace s @
                   [Subprocess (dialog_yesno_cmd ''Error''
                                  (''Permission denied: '' @ current_path) ''Yes'' ''No'')],
                 responses := rs\<rparr>)"
    by (rule browse_loop_Continue)
next
  assume "responses s = []"
  then have "browse_step env select_dir title current_path s
          = (Blocked,
             s\<lparr>trace := trace s @
                  [Subprocess (dialog_yesno_cmd ''Error''
                                 (''Permission denied: '' @ current_path) ''Yes'' ''No'')]\<rparr>)"
    using assms by (simp add: browse_step_def bind_def dialog_yesno_def subprocess_run_blocked)
  then show "browse_loop env select_dir title current_path s
          = (Blocked,
             s\<lparr>trace := trace s @
                  [Subprocess (dialog_yesno_cmd ''Error''
                                 (''Permission denied: '' @ current_path) ''Yes'' ''No'')]\<rparr>)"
    by (subst browse_loop.simps) simp
qed

text \<open>
  Whatever \<^const>\<open>browse_loop\<close> returns was returned by its last pass, and each pass
  adds at most one dialog to the trace.
\<close>

lemma browse_loop_last_step:
  "browse_loop env select_dir title current_path s = (Return res, s') \<Longrightarrow>
   \<exists>cur t. browse_step env select_dir title cur t = (Return (Finished res), s')"
proof (induction env select_dir title current_path s rule: browse_loop.induct)
  case (1 env select_dir title current_path s)
  obtain out s1 where st: "browse_step env select_dir title current_path s = (out, s1)"
    by (cases "browse_step env select_dir title current_path s")
  show ?case
  proof (cases out)
    case (Return nxt)
    show ?thesis
    proof (cases nxt)
      case (Continue p)
      have "browse_loop env select_dir title p s1 = (Return res, s')"
        using "1.prems" st Return Continue by (subst (asm) browse_loop.simps) simp
      then show ?thesis
        using "1.IH"[OF st[symmetric, unfolded Return Continue] refl refl] by blast
    next
      case (Finished r)
      have "(Return r, s1) = (Return res, s')"
        using "1.prems" st Return Finished by (subst (asm) browse_loop.simps) simp
      then show ?thesis using st Return Finished by blast
    qed
  next
    case (Exit n)
    then show ?thesis using "1.prems" st by (subst (asm) browse_loop.simps) simp
  next
    case (Raise e)
    then show ?thesis using "1.prems" st by (subst (asm) browse_loop.simps) simp
  next
    case Blocked
    then show ?thesis using "1.prems" st by (subst (asm) browse_loop.simps) simp
  qed
qed

lemma is_dialog_cmds:
  "is_dialog (Subprocess (dialog_yesno_cmd title prompt yes_label no_label))"
  "is_dialog (Subprocess (dialog_menu_cmd title prompt choices height width))"
  by (simp_all add: dialog_yesno_cmd_def dialog_menu_cmd_def)

lemma browse_step_trace:
  assumes "browse_step env select_dir title current_path s = (out, s')"
  shows "\<exists>ds. trace s' = trace s @ ds \<and> list_all is_dialog ds"
proof (cases "listdir env current_path")
  case (Inl e)
  show ?thesis
  proof (cases "e = PermissionError")
    case True
    show ?thesis
    proof (cases "responses s")
      case Nil
      then have "trace s' = trace s @ [Subprocess (dialog_yesno_cmd ''Error''
                   (''Permission denied: '' @ current_path) ''Yes'' ''No'')]"
        using assms Inl True
        by (auto simp: browse_step_def bind_def dialog_yesno_def subprocess_run_blocked)
      then show ?thesis using is_dialog_cmds(1) by simp
    next
      case (Cons r rs)
      have "trace s' = trace s @ [Subprocess (dialog_yesno_cmd ''Error''
                   (''Permission denied: '' @ current_path) ''Yes'' ''No'')]"
        using assms browse_step_denied[OF Inl[unfolded True] Cons] by auto
      then show ?thesis using is_dialog_cmds(1) by simp
    qed
  next
    case False
    then have "trace s' = trace s @ []"
      using assms Inl by (cases e) (auto simp: browse_step_def raise_def)
    then show ?thesis by (intro exI[of _ "[]"]) simp
  qed
next
  case (Inr items)
  show ?thesis
  proof (cases "responses s")
    case Nil
    then have "trace s' = trace s @ [Subprocess (dialog_menu_cmd title
                 (browse_prompt current_path select_dir)
                 (browse_choices env select_dir current_path items) 20 75)]"
      using assms Inr
      by (auto simp: browse_step_def bind_def dialog_menu_def subprocess_run_blocked Let_def)
    then show ?thesis using is_dialog_cmds(2) by simp
  next
    case (Cons r rs)
    have "trace s' = trace s @ [Subprocess (dialog_menu_cmd title
                 (browse_prompt current_path select_dir)
                 (browse_choices env select_dir current_path items) 20 75)]"
      using assms browse_step_menu[OF Inr Cons] by auto
    then show ?thesis using is_dialog_cmds(2) by simp
  qed
qed

lemma browse_loop_trace:
  "browse_loop env select_dir title current_path s = (out, s') \<Longrightarrow>
   \<exists>ds. trace s' = trace s @ ds \<and> list_all is_dialog ds"
proof (induction env select_dir title current_path s rule: browse_loop.induct)
  case (1 env select_dir title current_path s)
  obtain o1 s1 where st: "browse_step env select_dir title current_path s = (o1, s1)"
    by (cases "browse_step env select_dir title current_path s")
  obtain ds1 where d1: "trace s1 = trace s @ ds1" "list_all is_dialog ds1"
    using browse_step_trace[OF st] by blast
  show ?case
  proof (cases "\<exists>p. o1 = Return (Continue p)")
    case True
    then obtain p where p: "o1 = Return (Continue p)" by blast
    have "browse_loop env select_dir title p s1 = (out, s')"
      using "1.prems" st p by (subst (asm) browse_loop.simps) simp
    then obtain ds2 where "trace s' = trace s1 @ ds2" "list_all is_dialog ds2"
      using "1.IH"[OF st[symmetric, unfolded p] refl refl] by blast
    then have "trace s' = trace s @ (ds1 @ ds2) \<and> list_all is_dialog (ds1 @ ds2)"
      using d1 by simp
    then show ?thesis by blast
  next
    case False
    then have "s' = s1"
      using "1.prems" st
      by (subst (asm) browse_loop.simps) (auto split: outcome.splits browse_next.splits)
    then show ?thesis using d1 by blast
  qed
qed

lemma browse_path_trace:
  "browse_path env start_path select_dir title s = (out, s') \<Longrightarrow>
   \<exists>ds. trace s' = trace s @ ds \<and> list_all is_dialog ds"
  unfolding browse_path_def Let_def by (rule browse_loop_trace)

lemma dialog_no_mutation: "is_dialog e \<Longrightarrow> \<not> mutation e"
proof (cases e)
  case (Subprocess cmd)
  assume "is_dialog e"
  then show ?thesis using Subprocess by (cases cmd) auto
qed simp_all

lemma mutation_dialogs: "list_all is_dialog ds \<Longrightarrow> filter mutation ds = []"
proof (induction ds)
  case Nil
  show ?case by simp
next
  case (Cons e ds)
  then have "is_dialog e" by simp
  then have "\<not> mutation e" by (rule dialog_no_mutation)
  then show ?case using Cons by simp
qed

text \<open>
  C10 says that an entry that is neither a regular file nor a directory can never be
  selected, and that in file-select mode the browser returns only the path of an entry
  that was listed as a regular file. The browser does filter the listing by
  \<^verbatim>\<open>os.path.isfile\<close>, but \<^const>\<open>dialog_menu\<close> strips the tag it gets back. On the
  example machine the menu of \<open>/home/alexia\<close>
  lists the regular file \<open>pipe \<close> (with a space at its end) and leaves the FIFO
  \<open>pipe\<close> out; the user selects \<open>pipe \<close>, \<^verbatim>\<open>dialog\<close> reports that tag,
  \<^const>\<open>dialog_menu\<close> strips it, and the browser returns the path of the FIFO.
\<close>

theorem browse_file_counterexample:
  "browse_choices (demo_env False) False ''/home/alexia'' [''vms'', ''ubuntu.iso'', ''pipe '', ''pipe'']
     = [(''..'', ''../ (Go Up)''), (''vms/'', ''(Dir)''), (''pipe '', ''(File)''),
        (''ubuntu.iso'', ''(File)'')]
   \<and> fst (browse_path (demo_env False) ''/home/alexia/'' False ''SELECT ISO FILE''
            (session [answered ''pipe '']))
     = Return (Some ''/home/alexia/pipe'')
   \<and> \<not> isfile (demo_env False) ''/home/alexia/pipe''
   \<and> \<not> isdir (demo_env False) ''/home/alexia/pipe''
   \<and> path_exists (demo_env False) ''/home/alexia/pipe''"
proof -
  have l: "listdir (demo_env False) ''/home/alexia'' = Inr [''vms'', ''ubuntu.iso'', ''pipe '', ''pipe'']"
    by (simp add: demo_env_def)
  have a: "abspath (demo_env False) ''/home/alexia/'' = ''/home/alexia''"
    by (simp add: abspath_def isabs_def normpath_def)
  have d: "isdir (demo_env False) ''/home/alexia''"
    by (simp add: demo_env_def)
  have c: "browse_choices (demo_env False) False ''/home/alexia'' [''vms'', ''ubuntu.iso'', ''pipe '', ''pipe'']
     = [(''..'', ''../ (Go Up)''), (''vms/'', ''(Dir)''), (''pipe '', ''(File)''),
        (''ubuntu.iso'', ''(File)'')]"
    by code_simp
  have r: "responses (session [answered ''pipe '']) = answered ''pipe '' # []"
    by (simp add: session_def)
  have s: "strip (stderr (answered ''pipe '')) = ''pipe''"
    by (simp add: strip_def answered_def isspace_def)
  have "browse_step (demo_env False) False ''SELECT ISO FILE'' ''/home/alexia''
          (session [answered ''pipe ''])
        = (Return (Finished (Some ''/home/alexia/pipe'')),
           (session [answered ''pipe''])\<lparr>trace := trace (session [answered ''pipe '']) @
             [Subprocess (dialog_menu_cmd ''SELECT ISO FILE'' (browse_prompt ''/home/alexia'' False)
                (browse_choices (demo_env False) False ''/home/alexia''
                   [''vms'', ''ubuntu.iso'', ''pipe '', ''pipe'']) 20 75)],
             responses := []\<rparr>)"
    unfolding browse_step_menu[OF l r] s
    by (simp add: browse_select_def answered_def join_def suffix_to_prefix session_def)
  then have "fst (browse_loop (demo_env False) False ''SELECT ISO FILE'' ''/home/alexia''
                    (session [answered ''pipe ''])) = Return (Some ''/home/alexia/pipe'')"
    by (simp add: browse_loop_Finished)
  then have b: "fst (browse_path (demo_env False) ''/home/alexia/'' False ''SELECT ISO FILE''
            (session [answered ''pipe ''])) = Return (Some ''/home/alexia/pipe'')"
    by (simp add: browse_path_def a d)
  have f: "\<not> isfile (demo_env False) ''/home/alexia/pipe''"
    "\<not> isdir (demo_env False) ''/home/alexia/pipe''"
    "path_exists (demo_env False) ''/home/alexia/pipe''"
    by (simp_all add: demo_env_def OVMF_CODE_def OVMF_VARS_TEMPLATE_def)
  show ?thesis using c b f by simp
qed

lemma browse_step_finished_file:
  assumes "browse_step env False title cur t = (Return (Finished (Some p)), s')"
  obtains items r where "listdir env cur = Inr items" and "responses t = r # responses s'"
    and "returncode r = 0"
    and "trace s' = trace t @ [Subprocess (dialog_menu_cmd title (browse_prompt cur False)
                                             (browse_choices env False cur items) 20 75)]"
    and "browse_select False cur (Some (strip (stderr r))) = Finished (Some p)"
proof (cases "listdir env cur")
  case (Inl e)
  then have False
    using assms
    by (cases e; cases "responses t")
       (auto simp: browse_step_def run_simps dialog_yesno_def subprocess_run_def)
  then show ?thesis ..
next
  case (Inr items)
  show ?thesis
  proof (cases "responses t")
    case Nil
    then have False
      using assms Inr
      by (simp add: browse_step_def bind_def dialog_menu_def subprocess_run_blocked Let_def)
    then show ?thesis ..
  next
    case (Cons r rs)
    note m = assms[unfolded browse_step_menu[OF Inr Cons]]
    have z: "returncode r = 0"
      using m by (cases "returncode r = 0") (simp_all add: browse_select_def)
    have "responses s' = rs" "trace s' = trace t @ [Subprocess (dialog_menu_cmd title
            (browse_prompt cur False) (browse_choices env False cur items) 20 75)]"
      using m by auto
    moreover have "browse_select False cur (Some (strip (stderr r))) = Finished (Some p)"
      using m z by simp
    ultimately show ?thesis using that[OF Inr _ z] Cons by simp
  qed
qed

lemma browse_select_file:
  assumes "browse_select False cur (Some sel) = Finished (Some p)"
  shows "(sel = ''.'' \<and> p = cur)
       \<or> (sel \<noteq> ''.'' \<and> sel \<noteq> ''..'' \<and> \<not> suffix ''/'' sel \<and> p = join cur sel)"
  using assms by (auto simp: browse_select_def Let_def split: if_splits)

lemma file_tag:
  assumes "sel \<in> fst ` set (browse_choices env False cur items)"
    and "sel \<noteq> ''..''" and "\<not> suffix ''/'' sel"
  shows "sel \<in> set items \<and> isfile env (join cur sel)"
  using assms by (auto simp: browse_choices_def browse_files_def browse_dirs_def suffix_def)

text \<open>
  What the listing does guarantee: the directory rows of a menu are exactly the entries of the listing that
  are directories and the file rows exactly those that are regular files, so an entry
  that is neither is in no menu. In file-select mode, a path the browser returns comes
  from the answer to the last menu, of some directory \<open>dir\<close>: it is \<open>dir\<close> joined
  with the stripped text that \<^verbatim>\<open>dialog\<close> reported (or \<open>dir\<close> itself when that
  text is a dot). When the stripped text is one of the tags of that menu, and no entry
  of the listing is named \<open>.\<close>, the path returned is that of an entry listed as a
  regular file.
\<close>

theorem browse_file_selection:
  "set (browse_dirs env cur items) = {d \<in> set items. isdir env (join cur d)}
   \<and> set (browse_files env cur items) = {f \<in> set items. isfile env (join cur f)}
   \<and> (browse_path env start_path False title s = (Return (Some p), s') \<longrightarrow>
        (\<exists>dir entries (t::state) r.
            listdir env dir = Inr entries \<and> responses t = r # responses s' \<and> returncode r = 0
          \<and> trace s' = trace t @ [Subprocess (dialog_menu_cmd title (browse_prompt dir False)
                                                 (browse_choices env False dir entries) 20 75)]
          \<and> (p = join dir (strip (stderr r)) \<or> (strip (stderr r) = ''.'' \<and> p = dir))
          \<and> (''.'' \<notin> set entries
               \<and> strip (stderr r) \<in> fst ` set (browse_choices env False dir entries) \<longrightarrow>
                 strip (stderr r) \<in> set entries \<and> p = join dir (strip (stderr r))
                 \<and> isfile env p)))"
proof (intro conjI impI)
  show "set (browse_dirs env cur items) = {d \<in> set items. isdir env (join cur d)}"
    by (simp add: browse_dirs_def)
  show "set (browse_files env cur items) = {f \<in> set items. isfile env (join cur f)}"
    by (simp add: browse_files_def)
next
  assume "browse_path env start_path False title s = (Return (Some p), s')"
  then obtain c0 where "browse_loop env False title c0 s = (Return (Some p), s')"
    by (simp add: browse_path_def Let_def)
  then obtain dir t where "browse_step env False title dir t = (Return (Finished (Some p)), s')"
    using browse_loop_last_step by blast
  then obtain entries r where l: "listdir env dir = Inr entries"
    and r: "responses t = r # responses s'" and z: "returncode r = 0"
    and tr: "trace s' = trace t @ [Subprocess (dialog_menu_cmd title (browse_prompt dir False)
                                                   (browse_choices env False dir entries) 20 75)]"
    and sel: "browse_select False dir (Some (strip (stderr r))) = Finished (Some p)"
    by (rule browse_step_finished_file)
  note k = browse_select_file[OF sel]
  have a: "p = join dir (strip (stderr r)) \<or> (strip (stderr r) = ''.'' \<and> p = dir)"
    using k by blast
  have b: "''.'' \<notin> set entries
             \<and> strip (stderr r) \<in> fst ` set (browse_choices env False dir entries) \<longrightarrow>
           strip (stderr r) \<in> set entries \<and> p = join dir (strip (stderr r)) \<and> isfile env p"
  proof (intro impI; elim conjE)
    assume nd: "''.'' \<notin> set entries"
      and tag: "strip (stderr r) \<in> fst ` set (browse_choices env False dir entries)"
    show "strip (stderr r) \<in> set entries \<and> p = join dir (strip (stderr r)) \<and> isfile env p"
    proof (cases "strip (stderr r) = ''.''")
      case True
      have "''.'' \<in> set entries"
        using file_tag[OF tag] True by (simp add: suffix_to_prefix)
      then show ?thesis using nd by simp
    next
      case False
      then have "strip (stderr r) \<noteq> ''..''" "\<not> suffix ''/'' (strip (stderr r))"
        "p = join dir (strip (stderr r))"
        using k by auto
      then show ?thesis using file_tag[OF tag] by simp
    qed
  qed
  show "\<exists>dir entries (t::state) r.
            listdir env dir = Inr entries \<and> responses t = r # responses s' \<and> returncode r = 0
          \<and> trace s' = trace t @ [Subprocess (dialog_menu_cmd title (browse_prompt dir False)
                                                 (browse_choices env False dir entries) 20 75)]
          \<and> (p = join dir (strip (stderr r)) \<or> (strip (stderr r) = ''.'' \<and> p = dir))
          \<and> (''.'' \<notin> set entries
               \<and> strip (stderr r) \<in> fst ` set (browse_choices env False dir entries) \<longrightarrow>
                 strip (stderr r) \<in> set entries \<and> p = join dir (strip (stderr r))
                 \<and> isfile env p)"
  proof (intro exI conjI)
    show "listdir env dir = Inr entries" by (rule l)
    show "responses t = r # responses s'" by (rule r)
    show "returncode r = 0" by (rule z)
    show "trace s' = trace t @ [Subprocess (dialog_menu_cmd title (browse_prompt dir False)
                                             (browse_choices env False dir entries) 20 75)]"
      by (rule tr)
    show "p = join dir (strip (stderr r)) \<or> (strip (stderr r) = ''.'' \<and> p = dir)"
      by (rule a)
    show "''.'' \<notin> set entries
             \<and> strip (stderr r) \<in> fst ` set (browse_choices env False dir entries) \<longrightarrow>
           strip (stderr r) \<in> set entries \<and> p = join dir (strip (stderr r)) \<and> isfile env p"
      by (rule b)
  qed
qed

subsection \<open>The exit status\<close>

lemma check_dependencies_present:
  assumes "which env ''qemu-system-x86_64''" and "which env ''qemu-img''" and "which env ''dialog''"
    and "path_exists env OVMF_CODE"
  shows "check_dependencies env s = (Return (), s)"
  using assms by (simp add: check_dependencies_def return_def)

text \<open>
  C3: let the dependency check have passed, leaving the state \<open>s1\<close>. If the browser
  for the medium returns \<^verbatim>\<open>None\<close> (the menu was cancelled), \<^verbatim>\<open>main\<close> ends with
  \<^verbatim>\<open>sys.exit(0)\<close>, and since \<open>s1\<close> nothing but dialogs has been run. If it returns a
  path that is not a regular file, \<^verbatim>\<open>main\<close> ends with \<^verbatim>\<open>sys.exit(1)\<close>. If the browser
  for the storage directory returns \<^verbatim>\<open>None\<close>, \<^verbatim>\<open>main\<close> ends with \<^verbatim>\<open>sys.exit(0)\<close>,
  again with nothing but dialogs run since \<open>s1\<close>. If the menu of the operating mode is
  cancelled, or if a mode other than \<open>install\<close> is chosen and nothing exists at the
  derived disk path, \<^verbatim>\<open>main\<close> ends with \<^verbatim>\<open>sys.exit(1)\<close>.
\<close>

theorem main_exit_status:
  fixes env :: env and iso_path vm_dir :: string
  defines "firmware \<equiv> dialog_yesno_cmd ''Boot Emulation Mode''
                         (''CHOOSE THE BOOT MODE FOR THE MACHINE:'' @ [CHR 0x0A, CHR 0x0A]
                            @ ''UEFI for a UEFI machine, BIOS for a BIOS machine'')
                         ''UEFI'' ''BIOS''"
    and "action \<equiv> dialog_menu_cmd ''Action'' ''Select action:''
                      [(''install'', ''Install from ISO''),
                       (''run'', ''Run installed machine from disk'')] 15 60"
  assumes deps: "check_dependencies env s0 = (Return (), s1)"
  shows
    "(browse_path env ''/home/alexia/'' False ''SELECT ISO FILE'' s1 = (Return None, s2) \<longrightarrow>
        main env s0 = (Exit 0, s2)
        \<and> (\<exists>ds. trace s2 = trace s1 @ ds \<and> list_all is_dialog ds))
   \<and> (browse_path env ''/home/alexia/'' False ''SELECT ISO FILE'' s1 = (Return (Some iso_path), s2)
        \<and> iso_path \<noteq> [] \<and> \<not> isfile env iso_path \<longrightarrow>
        main env s0 = (Exit 1, s2\<lparr>trace := trace s2 @ [Print (''Invalid ISO path: '' @ iso_path)]\<rparr>))
   \<and> (browse_path env ''/home/alexia/'' False ''SELECT ISO FILE'' s1 = (Return (Some iso_path), s2)
        \<and> iso_path \<noteq> [] \<and> isfile env iso_path
        \<and> browse_path env ''/home/alexia/'' True ''SELECT DIR TO INSTALL VIRTUAL DISK'' s2
            = (Return None, s3) \<longrightarrow>
        main env s0 = (Exit 0, s3)
        \<and> (\<exists>ds. trace s3 = trace s1 @ ds \<and> list_all is_dialog ds))
   \<and> (browse_path env ''/home/alexia/'' False ''SELECT ISO FILE'' s1 = (Return (Some iso_path), s2)
        \<and> iso_path \<noteq> [] \<and> isfile env iso_path
        \<and> browse_path env ''/home/alexia/'' True ''SELECT DIR TO INSTALL VIRTUAL DISK'' s2
            = (Return (Some vm_dir), s3)
        \<and> vm_dir \<noteq> [] \<and> responses s3 = f # m # rs \<and> returncode m \<noteq> 0 \<longrightarrow>
        main env s0
          = (Exit 1,
             s3\<lparr>trace := trace s3 @ [Makedirs vm_dir, Subprocess firmware, Subprocess action],
                responses := rs\<rparr>))
   \<and> (browse_path env ''/home/alexia/'' False ''SELECT ISO FILE'' s1 = (Return (Some iso_path), s2)
        \<and> iso_path \<noteq> [] \<and> isfile env iso_path
        \<and> browse_path env ''/home/alexia/'' True ''SELECT DIR TO INSTALL VIRTUAL DISK'' s2
            = (Return (Some vm_dir), s3)
        \<and> vm_dir \<noteq> [] \<and> responses s3 = f # m # rs \<and> returncode m = 0
        \<and> strip (stderr m) \<noteq> [] \<and> strip (stderr m) \<noteq> ''install''
        \<and> \<not> path_exists env (disk_path iso_path vm_dir (returncode f = 0)) \<longrightarrow>
        main env s0
          = (Exit 1,
             s3\<lparr>trace := trace s3 @
                   [Makedirs vm_dir, Subprocess firmware, Subprocess action,
                    Print (''Disk not found: '' @ disk_path iso_path vm_dir (returncode f = 0)
                             @ ''. Run install first.'')],
                responses := rs\<rparr>))"
proof (intro conjI impI; (elim conjE)?)
  assume b: "browse_path env ''/home/alexia/'' False ''SELECT ISO FILE'' s1 = (Return None, s2)"
  show "main env s0 = (Exit 0, s2)"
    by (simp add: main_def main_select_iso_def bind_def deps b sys_exit_def)
  show "\<exists>ds. trace s2 = trace s1 @ ds \<and> list_all is_dialog ds"
    using b by (rule browse_path_trace)
next
  assume b: "browse_path env ''/home/alexia/'' False ''SELECT ISO FILE'' s1 = (Return (Some iso_path), s2)"
    and i: "iso_path \<noteq> []" "\<not> isfile env iso_path"
  show "main env s0 = (Exit 1, s2\<lparr>trace := trace s2 @ [Print (''Invalid ISO path: '' @ iso_path)]\<rparr>)"
    using i by (simp add: main_def main_select_iso_def bind_def deps b sys_exit_def print_run)
next
  assume b: "browse_path env ''/home/alexia/'' False ''SELECT ISO FILE'' s1 = (Return (Some iso_path), s2)"
    and i: "iso_path \<noteq> []" "isfile env iso_path"
    and v: "browse_path env ''/home/alexia/'' True ''SELECT DIR TO INSTALL VIRTUAL DISK'' s2
              = (Return None, s3)"
  show "main env s0 = (Exit 0, s3)"
    using i
    by (simp add: main_def main_select_iso_def main_select_vm_dir_def bind_def deps b v sys_exit_def)
  obtain ds1 where d1: "trace s2 = trace s1 @ ds1" "list_all is_dialog ds1"
    using browse_path_trace[OF b] by blast
  obtain ds2 where d2: "trace s3 = trace s2 @ ds2" "list_all is_dialog ds2"
    using browse_path_trace[OF v] by blast
  have "trace s3 = trace s1 @ (ds1 @ ds2) \<and> list_all is_dialog (ds1 @ ds2)"
    using d1 d2 by simp
  then show "\<exists>ds. trace s3 = trace s1 @ ds \<and> list_all is_dialog ds" by blast
next
  assume b: "browse_path env ''/home/alexia/'' False ''SELECT ISO FILE'' s1 = (Return (Some iso_path), s2)"
    and i: "iso_path \<noteq> []" "isfile env iso_path"
    and v: "browse_path env ''/home/alexia/'' True ''SELECT DIR TO INSTALL VIRTUAL DISK'' s2
              = (Return (Some vm_dir), s3)"
    and r: "vm_dir \<noteq> []" "responses s3 = f # m # rs" "returncode m \<noteq> 0"
  show "main env s0
          = (Exit 1,
             s3\<lparr>trace := trace s3 @ [Makedirs vm_dir, Subprocess firmware, Subprocess action],
                responses := rs\<rparr>)"
    using i r
    by (simp add: main_def main_select_iso_def main_select_vm_dir_def main_bios_or_uefi_def
        main_install_or_run_def deps b v run_simps firmware_def action_def)
next
  assume b: "browse_path env ''/home/alexia/'' False ''SELECT ISO FILE'' s1 = (Return (Some iso_path), s2)"
    and i: "iso_path \<noteq> []" "isfile env iso_path"
    and v: "browse_path env ''/home/alexia/'' True ''SELECT DIR TO INSTALL VIRTUAL DISK'' s2
              = (Return (Some vm_dir), s3)"
    and r: "vm_dir \<noteq> []" "responses s3 = f # m # rs" "returncode m = 0"
      "strip (stderr m) \<noteq> []" "strip (stderr m) \<noteq> ''install''"
      "\<not> path_exists env (disk_path iso_path vm_dir (returncode f = 0))"
  show "main env s0
          = (Exit 1,
             s3\<lparr>trace := trace s3 @
                   [Makedirs vm_dir, Subprocess firmware, Subprocess action,
                    Print (''Disk not found: '' @ disk_path iso_path vm_dir (returncode f = 0)
                             @ ''. Run install first.'')],
                responses := rs\<rparr>)"
    using i r
    by (simp add: main_def main_select_iso_def main_select_vm_dir_def main_bios_or_uefi_def
        main_install_or_run_def deps b v run_simps firmware_def action_def
        build_args_run run_mode_missing)
qed

subsection \<open>The properties on the example machine\<close>

lemma demo_paths:
  "disk_path ''/home/alexia/ubuntu.iso'' ''/home/alexia/vms'' False = ''/home/alexia/vms/ubuntu.qcow2''"
  "disk_path ''/home/alexia/ubuntu.iso'' ''/home/alexia/vms'' True = ''/home/alexia/vms/ubuntu.uefi.qcow2''"
  "vars_path ''/home/alexia/ubuntu.iso'' ''/home/alexia/vms'' = ''/home/alexia/vms/OVMF_VARS_ubuntu.fd''"
  by code_simp+

lemma demo_exists:
  "path_exists (demo_env True) ''/home/alexia/vms/ubuntu.qcow2''"
  "path_exists (demo_env True) ''/home/alexia/vms/ubuntu.uefi.qcow2''"
  "path_exists (demo_env True) ''/home/alexia/vms/OVMF_VARS_ubuntu.fd''"
  "\<not> path_exists (demo_env False) ''/home/alexia/vms/ubuntu.qcow2''"
  "\<not> path_exists (demo_env False) ''/home/alexia/vms/ubuntu.uefi.qcow2''"
  "\<not> path_exists (demo_env False) ''/home/alexia/vms/OVMF_VARS_ubuntu.fd''"
  by code_simp+

lemma demo_errors:
  "remove_error (demo_env installed) p = None"
  "copy_error (demo_env installed) src dst = None"
  "remove_error demo_readonly p = Some PermissionError"
  "copy_error demo_readonly src dst = Some PermissionError"
  "path_exists demo_readonly = path_exists (demo_env True)"
  by (simp_all add: demo_env_def demo_readonly_def)

lemma demo_answers:
  "returncode cancelled \<noteq> 0" "returncode (answered out) = 0" "stderr (answered out) = out"
  "returncode failed \<noteq> 0"
  by (simp_all add: cancelled_def answered_def failed_def)

lemma session_simps:
  "trace (session rs) = []" "responses (session rs) = rs" "keyboard (session rs) = []"
  by (simp_all add: session_def)



theorem run_mode_session_witness:
  "bind (build_args (demo_env False) ''/home/alexia/ubuntu.iso'' ''/home/alexia/vms'' False ''run'')
     (launch ''/home/alexia/ubuntu.iso'' ''run'') (session [answered []])
   = (Exit 1,
      \<lparr>trace = [Print ''Disk not found: /home/alexia/vms/ubuntu.qcow2. Run install first.''],
       responses = [answered []], keyboard = []\<rparr>)
   \<and> build_args (demo_env True) ''/home/alexia/ubuntu.iso'' ''/home/alexia/vms'' False ''run''
       (session [answered []])
     = (Return (qemu_args_base ''/home/alexia/vms/ubuntu.qcow2'' @ [''-boot'', ''order=c'']),
        \<lparr>trace = [Print ''Starting RUN mode (BIOS)''],
         responses = [answered []], keyboard = []\<rparr>)
   \<and> bind (build_args (demo_env True) ''/home/alexia/ubuntu.iso'' ''/home/alexia/vms'' False ''run'')
       (launch ''/home/alexia/ubuntu.iso'' ''run'') (session [answered []])
     = (Return (),
        \<lparr>trace = [Print ''Starting RUN mode (BIOS)'',
                  Print (''Launching QEMU: ''
                         @ str_join '' '' (qemu_args_base ''/home/alexia/vms/ubuntu.qcow2''
                                           @ [''-boot'', ''order=c''])),
                  Subprocess (qemu_args_base ''/home/alexia/vms/ubuntu.qcow2''
                              @ [''-boot'', ''order=c''])],
         responses = [], keyboard = []\<rparr>)"
proof -
  have m: "''run'' \<noteq> ''install''" by simp
  note missing = run_mode_session
    [where env = "demo_env False" and iso_path = "''/home/alexia/ubuntu.iso''"
       and vm_dir = "''/home/alexia/vms''" and is_uefi = False and mode = "''run''"
       and s = "session [answered []]", THEN conjunct1]
  note present = run_mode_session
    [where env = "demo_env True" and iso_path = "''/home/alexia/ubuntu.iso''"
       and vm_dir = "''/home/alexia/vms''" and is_uefi = False and mode = "''run''"
       and s = "session [answered []]" and r = "answered []" and rs = "[]", THEN conjunct2]
  show ?thesis
    using missing present m
    by (simp add: demo_paths demo_exists session_def mode_name_def)
qed

theorem new_args_is_run_args_witness:
  "isabs ''/home/alexia/ubuntu.iso''
   \<and> fst (build_args (demo_env False) ''/home/alexia/ubuntu.iso'' ''/home/alexia/vms'' True
            ''install'' (session [answered []]))
     = Return (qemu_args_base ''/home/alexia/vms/ubuntu.uefi.qcow2''
               @ qemu_args_uefi ''/home/alexia/vms/OVMF_VARS_ubuntu.fd''
               @ [''-cdrom'', ''/home/alexia/ubuntu.iso'', ''-boot'', ''order=d''])
   \<and> fst (build_args (demo_env True) ''/home/alexia/ubuntu.iso'' ''/home/alexia/vms'' True
            ''run'' (session []))
     = Return (qemu_args_base ''/home/alexia/vms/ubuntu.uefi.qcow2''
               @ qemu_args_uefi ''/home/alexia/vms/OVMF_VARS_ubuntu.fd''
               @ [''-boot'', ''order=c''])
   \<and> new_args ''/home/alexia/ubuntu.iso''
       (qemu_args_base ''/home/alexia/vms/ubuntu.uefi.qcow2''
        @ qemu_args_uefi ''/home/alexia/vms/OVMF_VARS_ubuntu.fd''
        @ [''-cdrom'', ''/home/alexia/ubuntu.iso'', ''-boot'', ''order=d''])
     = qemu_args_base ''/home/alexia/vms/ubuntu.uefi.qcow2''
       @ qemu_args_uefi ''/home/alexia/vms/OVMF_VARS_ubuntu.fd''
       @ [''-boot'', ''order=c'']
   \<and> count_list (new_args ''/home/alexia/ubuntu.iso''
       (qemu_args_base ''/home/alexia/vms/ubuntu.uefi.qcow2''
        @ qemu_args_uefi ''/home/alexia/vms/OVMF_VARS_ubuntu.fd''
        @ [''-cdrom'', ''/home/alexia/ubuntu.iso'', ''-boot'', ''order=d''])) ''-boot'' = 1
   \<and> fst (launch ''/home/alexia/ubuntu.iso'' ''install''
       (qemu_args_base ''/home/alexia/vms/ubuntu.uefi.qcow2''
        @ qemu_args_uefi ''/home/alexia/vms/OVMF_VARS_ubuntu.fd''
        @ [''-cdrom'', ''/home/alexia/ubuntu.iso'', ''-boot'', ''order=d''])
       (session [answered [], answered [], answered []])) = Return ()"
proof -
  let ?iso = "''/home/alexia/ubuntu.iso''"
  let ?common = "qemu_args_base ''/home/alexia/vms/ubuntu.uefi.qcow2''
                 @ qemu_args_uefi ''/home/alexia/vms/OVMF_VARS_ubuntu.fd''"
  let ?s1 = "\<lparr>trace = [Print ''Starting INSTALL mode (UEFI)'',
                        Subprocess [''qemu-img'', ''create'', ''-f'', ''qcow2'',
                                    ''/home/alexia/vms/ubuntu.uefi.qcow2'', ''20G''],
                        Copy OVMF_VARS_TEMPLATE ''/home/alexia/vms/OVMF_VARS_ubuntu.fd''],
               responses = [], keyboard = []\<rparr>"
  let ?t1 = "\<lparr>trace = [Print ''Starting RUN mode (UEFI)''], responses = [], keyboard = []\<rparr>"
  have a: "isabs ?iso" by (simp add: isabs_def)
  have i: "build_args (demo_env False) ?iso ''/home/alexia/vms'' True ''install''
             (session [answered []])
           = (Return (?common @ [''-cdrom'', ?iso, ''-boot'', ''order=d'']), ?s1)"
    unfolding build_args_install demo_paths
    by (simp add: install_mode_fresh[where q = "answered []" and rs = "[]"]
        demo_exists demo_answers demo_errors session_def mode_name_def)
  have m: "''run'' \<noteq> ''install''" by simp
  have r: "build_args (demo_env True) ?iso ''/home/alexia/vms'' True ''run'' (session [])
           = (Return (?common @ [''-boot'', ''order=c'']), ?t1)"
    unfolding build_args_run[OF m] demo_paths
    by (simp add: run_mode_present demo_exists session_def mode_name_def)
  note t = new_args_is_run_args[OF a i m r,
      where u = "session [answered [], answered [], answered []]" and ?r1.0 = "answered []"
        and c = "answered []" and ?r2.0 = "answered []" and rs = "[]"]
  have n: "new_args ?iso (?common @ [''-cdrom'', ?iso, ''-boot'', ''order=d''])
             = ?common @ [''-boot'', ''order=c'']"
    using t by blast
  have k: "count_list (new_args ?iso (?common @ [''-cdrom'', ?iso, ''-boot'', ''order=d'']))
             ''-boot'' = 1"
    using t by blast
  have "responses (session [answered [], answered [], answered []])
          = answered [] # answered [] # answered [] # []
        \<and> returncode (answered []) = 0"
    by (simp add: session_def answered_def)
  then have "fst (launch ?iso ''install'' (?common @ [''-cdrom'', ?iso, ''-boot'', ''order=d''])
               (session [answered [], answered [], answered []])) = Return ()"
    using t by simp
  then show ?thesis
    using a i r n k by simp
qed

text \<open>
  C8, as stated: mapping the selections and the existence checks to the argument list
  removes, creates and copies no file. On the example machine with an earlier
  installation, building the arguments of a UEFI installation removes the old disk, runs
  \<^verbatim>\<open>qemu-img create\<close>, removes the old variables file and copies the template, all
  before the list is returned.
\<close>

theorem build_args_counterexample:
  "fst (build_args (demo_env True) ''/home/alexia/ubuntu.iso'' ''/home/alexia/vms'' True ''install''
          (session [answered [], answered []]))
     = Return (qemu_args_base ''/home/alexia/vms/ubuntu.uefi.qcow2''
               @ qemu_args_uefi ''/home/alexia/vms/OVMF_VARS_ubuntu.fd''
               @ [''-cdrom'', ''/home/alexia/ubuntu.iso'', ''-boot'', ''order=d''])
   \<and> filter mutation
        (trace (snd (build_args (demo_env True) ''/home/alexia/ubuntu.iso'' ''/home/alexia/vms''
                       True ''install'' (session [answered [], answered []]))))
     = [Remove ''/home/alexia/vms/ubuntu.uefi.qcow2'',
        Subprocess [''qemu-img'', ''create'', ''-f'', ''qcow2'',
                    ''/home/alexia/vms/ubuntu.uefi.qcow2'', ''20G''],
        Remove ''/home/alexia/vms/OVMF_VARS_ubuntu.fd'',
        Copy OVMF_VARS_TEMPLATE ''/home/alexia/vms/OVMF_VARS_ubuntu.fd'']"
  unfolding build_args_install demo_paths
  by (simp add: install_mode_overwrite[where c = "answered []" and q = "answered []" and rs = "[]"]
      demo_exists demo_answers demo_errors session_def dialog_yesno_cmd_def)

theorem build_args_effects_witness:
  "build_args (demo_env True) ''/home/alexia/ubuntu.iso'' ''/home/alexia/vms'' True ''install''
     (session [answered [], failed])
   = (Return (qemu_args_base ''/home/alexia/vms/ubuntu.uefi.qcow2''
              @ qemu_args_uefi ''/home/alexia/vms/OVMF_VARS_ubuntu.fd''
              @ [''-cdrom'', ''/home/alexia/ubuntu.iso'', ''-boot'', ''order=d'']),
      \<lparr>trace = [Print ''Starting INSTALL mode (UEFI)'',
                Subprocess (dialog_yesno_cmd ''Disk Exists''
                  ''Disk /home/alexia/vms/ubuntu.uefi.qcow2 already exists. Overwrite?''
                  ''Yes'' ''No''),
                Remove ''/home/alexia/vms/ubuntu.uefi.qcow2'',
                Subprocess [''qemu-img'', ''create'', ''-f'', ''qcow2'',
                            ''/home/alexia/vms/ubuntu.uefi.qcow2'', ''20G''],
                PrintError [''qemu-img'', ''create'', ''-f'', ''qcow2'',
                            ''/home/alexia/vms/ubuntu.uefi.qcow2'', ''20G''],
                Remove ''/home/alexia/vms/OVMF_VARS_ubuntu.fd'',
                Copy OVMF_VARS_TEMPLATE ''/home/alexia/vms/OVMF_VARS_ubuntu.fd''],
       responses = [], keyboard = []\<rparr>)
   \<and> filter mutation
        [Print ''Starting INSTALL mode (UEFI)'',
         Subprocess (dialog_yesno_cmd ''Disk Exists''
           ''Disk /home/alexia/vms/ubuntu.uefi.qcow2 already exists. Overwrite?'' ''Yes'' ''No''),
         Remove ''/home/alexia/vms/ubuntu.uefi.qcow2'',
         Subprocess [''qemu-img'', ''create'', ''-f'', ''qcow2'',
                     ''/home/alexia/vms/ubuntu.uefi.qcow2'', ''20G''],
         PrintError [''qemu-img'', ''create'', ''-f'', ''qcow2'',
                     ''/home/alexia/vms/ubuntu.uefi.qcow2'', ''20G''],
         Remove ''/home/alexia/vms/OVMF_VARS_ubuntu.fd'',
         Copy OVMF_VARS_TEMPLATE ''/home/alexia/vms/OVMF_VARS_ubuntu.fd'']
     = [Remove ''/home/alexia/vms/ubuntu.uefi.qcow2'',
        Subprocess [''qemu-img'', ''create'', ''-f'', ''qcow2'',
                    ''/home/alexia/vms/ubuntu.uefi.qcow2'', ''20G''],
        Remove ''/home/alexia/vms/OVMF_VARS_ubuntu.fd'',
        Copy OVMF_VARS_TEMPLATE ''/home/alexia/vms/OVMF_VARS_ubuntu.fd'']
   \<and> build_args (demo_env False) ''/home/alexia/ubuntu.iso'' ''/home/alexia/vms'' False ''install''
       (session [answered []])
     = (Return (qemu_args_base ''/home/alexia/vms/ubuntu.qcow2''
                @ [''-cdrom'', ''/home/alexia/ubuntu.iso'', ''-boot'', ''order=d'']),
        \<lparr>trace = [Print ''Starting INSTALL mode (BIOS)'',
                  Subprocess [''qemu-img'', ''create'', ''-f'', ''qcow2'',
                              ''/home/alexia/vms/ubuntu.qcow2'', ''20G'']],
         responses = [], keyboard = []\<rparr>)
   \<and> filter mutation
        [Print ''Starting INSTALL mode (BIOS)'',
         Subprocess [''qemu-img'', ''create'', ''-f'', ''qcow2'',
                     ''/home/alexia/vms/ubuntu.qcow2'', ''20G'']]
     = [Subprocess [''qemu-img'', ''create'', ''-f'', ''qcow2'',
                    ''/home/alexia/vms/ubuntu.qcow2'', ''20G'']]
   \<and> build_args (demo_env True) ''/home/alexia/ubuntu.iso'' ''/home/alexia/vms'' True ''run''
       (session [])
     = (Return (qemu_args_base ''/home/alexia/vms/ubuntu.uefi.qcow2''
                @ qemu_args_uefi ''/home/alexia/vms/OVMF_VARS_ubuntu.fd''
                @ [''-boot'', ''order=c'']),
        \<lparr>trace = [Print ''Starting RUN mode (UEFI)''], responses = [], keyboard = []\<rparr>)
   \<and> filter mutation [Print ''Starting RUN mode (UEFI)''] = []"
proof -
  let ?iso = "''/home/alexia/ubuntu.iso''"
  let ?u = "[Print ''Starting INSTALL mode (UEFI)'',
             Subprocess (dialog_yesno_cmd ''Disk Exists''
               ''Disk /home/alexia/vms/ubuntu.uefi.qcow2 already exists. Overwrite?''
               ''Yes'' ''No''),
             Remove ''/home/alexia/vms/ubuntu.uefi.qcow2'',
             Subprocess [''qemu-img'', ''create'', ''-f'', ''qcow2'',
                         ''/home/alexia/vms/ubuntu.uefi.qcow2'', ''20G''],
             PrintError [''qemu-img'', ''create'', ''-f'', ''qcow2'',
                         ''/home/alexia/vms/ubuntu.uefi.qcow2'', ''20G''],
             Remove ''/home/alexia/vms/OVMF_VARS_ubuntu.fd'',
             Copy OVMF_VARS_TEMPLATE ''/home/alexia/vms/OVMF_VARS_ubuntu.fd'']"
  let ?b = "[Print ''Starting INSTALL mode (BIOS)'',
             Subprocess [''qemu-img'', ''create'', ''-f'', ''qcow2'',
                         ''/home/alexia/vms/ubuntu.qcow2'', ''20G'']]"
  let ?t1 = "\<lparr>trace = [Print ''Starting RUN mode (UEFI)''], responses = [], keyboard = []\<rparr>"
  have o: "build_args (demo_env True) ?iso ''/home/alexia/vms'' True ''install''
             (session [answered [], failed])
           = (Return (qemu_args_base ''/home/alexia/vms/ubuntu.uefi.qcow2''
                      @ qemu_args_uefi ''/home/alexia/vms/OVMF_VARS_ubuntu.fd''
                      @ [''-cdrom'', ?iso, ''-boot'', ''order=d'']),
              \<lparr>trace = ?u, responses = [], keyboard = []\<rparr>)"
    unfolding build_args_install demo_paths
    by (simp add: install_mode_overwrite[where c = "answered []" and q = failed and rs = "[]"]
        demo_exists demo_answers demo_errors session_def mode_name_def)
  have i: "build_args (demo_env False) ?iso ''/home/alexia/vms'' False ''install''
             (session [answered []])
           = (Return (qemu_args_base ''/home/alexia/vms/ubuntu.qcow2''
                      @ [''-cdrom'', ?iso, ''-boot'', ''order=d'']),
              \<lparr>trace = ?b, responses = [], keyboard = []\<rparr>)"
    unfolding build_args_install demo_paths
    by (simp add: install_mode_fresh[where q = "answered []" and rs = "[]"]
        demo_exists demo_answers demo_errors session_def mode_name_def)
  have m: "''run'' \<noteq> ''install''" by simp
  have r: "build_args (demo_env True) ?iso ''/home/alexia/vms'' True ''run'' (session [])
           = (Return (qemu_args_base ''/home/alexia/vms/ubuntu.uefi.qcow2''
                      @ qemu_args_uefi ''/home/alexia/vms/OVMF_VARS_ubuntu.fd''
                      @ [''-boot'', ''order=c'']), ?t1)"
    unfolding build_args_run[OF m] demo_paths
    by (simp add: run_mode_present demo_exists session_def mode_name_def)
  have 1: "filter mutation ?u
           = [Remove ''/home/alexia/vms/ubuntu.uefi.qcow2'',
              Subprocess [''qemu-img'', ''create'', ''-f'', ''qcow2'',
                          ''/home/alexia/vms/ubuntu.uefi.qcow2'', ''20G''],
              Remove ''/home/alexia/vms/OVMF_VARS_ubuntu.fd'',
              Copy OVMF_VARS_TEMPLATE ''/home/alexia/vms/OVMF_VARS_ubuntu.fd'']"
    using build_args_effects[OF o, THEN conjunct2]
    by (simp only: demo_paths demo_exists session_simps state.simps if_True filter.simps
        append_Nil append_Cons refl)
  have 2: "filter mutation ?b
           = [Subprocess [''qemu-img'', ''create'', ''-f'', ''qcow2'',
                          ''/home/alexia/vms/ubuntu.qcow2'', ''20G'']]"
    using build_args_effects[OF i, THEN conjunct2]
    by (simp only: demo_paths demo_exists session_simps state.simps if_True if_False
        filter.simps append_Nil append_Cons refl)
  have 3: "filter mutation [Print ''Starting RUN mode (UEFI)''] = []"
    using build_args_effects[OF r] by (simp add: session_def)
  show ?thesis
    by (intro conjI) (rule o 1 i 2 r 3)+
qed

theorem dialogs_cancelled_witness:
  "dialog_input ''Name'' ''Name of the machine'' ''vm'' (session [cancelled])
     = (Return None,
        \<lparr>trace = [Subprocess (dialog_input_cmd ''Name'' ''Name of the machine'' ''vm'')],
         responses = [], keyboard = []\<rparr>)
   \<and> dialog_menu ''Action'' ''Select action:'' [(''install'', ''Install from ISO'')] 15 60
       (session [cancelled])
     = (Return None,
        \<lparr>trace = [Subprocess (dialog_menu_cmd ''Action'' ''Select action:''
                                [(''install'', ''Install from ISO'')] 15 60)],
         responses = [], keyboard = []\<rparr>)
   \<and> dialog_yesno ''Disk Exists'' ''Overwrite?'' ''Yes'' ''No'' (session [cancelled])
     = (Return False,
        \<lparr>trace = [Subprocess (dialog_yesno_cmd ''Disk Exists'' ''Overwrite?'' ''Yes'' ''No'')],
         responses = [], keyboard = []\<rparr>)
   \<and> main_bios_or_uefi (demo_env False) ''/home/alexia/ubuntu.iso'' ''/home/alexia/vms''
       (session [cancelled])
     = main_install_or_run (demo_env False) ''/home/alexia/ubuntu.iso'' ''/home/alexia/vms'' False
         \<lparr>trace = [Subprocess (dialog_yesno_cmd ''Boot Emulation Mode''
                      (''CHOOSE THE BOOT MODE FOR THE MACHINE:'' @ [CHR 0x0A, CHR 0x0A]
                         @ ''UEFI for a UEFI machine, BIOS for a BIOS machine'')
                      ''UEFI'' ''BIOS'')],
          responses = [], keyboard = []\<rparr>"
proof -
  have r: "responses (session [cancelled]) = cancelled # []"
    by (simp add: session_def)
  have c: "returncode cancelled \<noteq> 0"
    by (simp add: cancelled_def)
  note t = dialogs_cancelled[OF r c]
  show ?thesis
    using t[where title = "''Name''" and prompt = "''Name of the machine''" and dflt = "''vm''"]
      t[where title = "''Action''" and prompt = "''Select action:''"
          and choices = "[(''install'', ''Install from ISO'')]" and height = 15 and width = 60]
      t[where title = "''Disk Exists''" and prompt = "''Overwrite?''" and yes_label = "''Yes''"
          and no_label = "''No''"]
      t[where env = "demo_env False" and iso_path = "''/home/alexia/ubuntu.iso''"
          and vm_dir = "''/home/alexia/vms''"]
    by (simp add: session_def)
qed

lemma demo_listdir:
  "listdir (demo_env installed) ''/home/alexia'' = Inr [''vms'', ''ubuntu.iso'', ''pipe '', ''pipe'']"
  "listdir (demo_env installed) ''/'' = Inr [''root'', ''home'']"
  "listdir (demo_env installed) ''/root'' = Inl PermissionError"
  by (simp_all add: demo_env_def)

lemma demo_choices:
  "browse_choices (demo_env False) True ''/home/alexia'' [''vms'', ''ubuntu.iso'', ''pipe '', ''pipe'']
     = [(''.'', ''--> SELECT THIS DIRECTORY: /home/alexia <--''), (''..'', ''../ (Go Up)''),
        (''vms/'', ''(Dir)''), (''pipe '', ''(File)''), (''ubuntu.iso'', ''(File)'')]"
  "browse_choices (demo_env False) False ''/home/alexia'' [''vms'', ''ubuntu.iso'', ''pipe '', ''pipe'']
     = [(''..'', ''../ (Go Up)''),
        (''vms/'', ''(Dir)''), (''pipe '', ''(File)''), (''ubuntu.iso'', ''(File)'')]"
  "browse_choices (demo_env False) False ''/'' [''root'', ''home'']
     = [(''..'', ''../ (Go Up)''), (''home/'', ''(Dir)''), (''root/'', ''(Dir)'')]"
  by code_simp+

lemma demo_start:
  "browse_path (demo_env installed) ''/home/alexia/'' select_dir title
     = browse_loop (demo_env installed) select_dir title ''/home/alexia''"
proof -
  have "abspath (demo_env installed) ''/home/alexia/'' = ''/home/alexia''"
    by (simp add: abspath_def isabs_def normpath_def)
  moreover have "isdir (demo_env installed) ''/home/alexia''"
    by (simp add: demo_env_def)
  ultimately show ?thesis
    by (simp add: browse_path_def fun_eq_iff)
qed

theorem browse_choices_order_witness:
  "listdir (demo_env False) ''/home/alexia'' = Inr [''vms'', ''ubuntu.iso'', ''pipe '', ''pipe'']
   \<and> browse_choices (demo_env False) True ''/home/alexia'' [''vms'', ''ubuntu.iso'', ''pipe '', ''pipe'']
     = [(''.'', ''--> SELECT THIS DIRECTORY: /home/alexia <--''), (''..'', ''../ (Go Up)''),
        (''vms/'', ''(Dir)''), (''pipe '', ''(File)''), (''ubuntu.iso'', ''(File)'')]
   \<and> trace (snd (browse_step (demo_env False) True ''SELECT DIR TO INSTALL VIRTUAL DISK''
                    ''/home/alexia'' (session [cancelled])))
     = [Subprocess (dialog_menu_cmd ''SELECT DIR TO INSTALL VIRTUAL DISK''
                      (browse_prompt ''/home/alexia'' True)
                      [(''.'', ''--> SELECT THIS DIRECTORY: /home/alexia <--''),
                       (''..'', ''../ (Go Up)''), (''vms/'', ''(Dir)''),
                       (''pipe '', ''(File)''), (''ubuntu.iso'', ''(File)'')] 20 75)]"
proof -
  have r: "responses (session [cancelled]) = cancelled # []"
    by (simp add: session_def)
  have t: "trace (session [cancelled]) = []"
    by (simp add: session_def)
  note o = browse_choices_order
    [where env = "demo_env False" and select_dir = True and current_path = "''/home/alexia''"
       and items = "[''vms'', ''ubuntu.iso'', ''pipe '', ''pipe'']"
       and s = "session [cancelled]" and r = cancelled and rs = "[]"
       and title = "''SELECT DIR TO INSTALL VIRTUAL DISK''"]
  have "trace (snd (browse_step (demo_env False) True ''SELECT DIR TO INSTALL VIRTUAL DISK''
                      ''/home/alexia'' (session [cancelled])))
        = trace (session [cancelled])
          @ [Subprocess (dialog_menu_cmd ''SELECT DIR TO INSTALL VIRTUAL DISK''
               (browse_prompt ''/home/alexia'' True)
               (browse_choices (demo_env False) True ''/home/alexia''
                  [''vms'', ''ubuntu.iso'', ''pipe '', ''pipe'']) 20 75)]"
    using o demo_listdir(1)[of False] r by blast
  then show ?thesis
    unfolding demo_choices t using demo_listdir(1)[of False] by simp
qed

theorem permission_denied_goes_up_witness:
  "listdir (demo_env False) ''/root'' = Inl PermissionError
   \<and> browse_loop (demo_env False) False ''SELECT ISO FILE'' ''/root''
       (session [answered [], cancelled])
     = (Return None,
        \<lparr>trace = [Subprocess (dialog_yesno_cmd ''Error'' ''Permission denied: /root'' ''Yes'' ''No''),
                  Subprocess (dialog_menu_cmd ''SELECT ISO FILE'' (browse_prompt ''/'' False)
                                [(''..'', ''../ (Go Up)''), (''home/'', ''(Dir)''),
                                 (''root/'', ''(Dir)'')] 20 75)],
         responses = [], keyboard = []\<rparr>)
   \<and> browse_loop (demo_env False) False ''SELECT ISO FILE'' ''/root'' (session [])
     = (Blocked,
        \<lparr>trace = [Subprocess (dialog_yesno_cmd ''Error'' ''Permission denied: /root'' ''Yes'' ''No'')],
         responses = [], keyboard = []\<rparr>)"
proof -
  let ?s1 = "\<lparr>trace = [Subprocess (dialog_yesno_cmd ''Error'' ''Permission denied: /root''
                                     ''Yes'' ''No'')],
               responses = [cancelled], keyboard = []\<rparr>"
  note p = permission_denied_goes_up[OF demo_listdir(3)[of False],
      where select_dir = False and title = "''SELECT ISO FILE''"]
  have d: "dirname ''/root'' = ''/''"
    by code_simp
  have "browse_loop (demo_env False) False ''SELECT ISO FILE'' ''/root''
          (session [answered [], cancelled])
        = browse_loop (demo_env False) False ''SELECT ISO FILE'' ''/'' ?s1"
    using p[where s = "session [answered [], cancelled]" and r = "answered []"
              and rs = "[cancelled]"]
    by (simp add: session_def d)
  moreover have "browse_step (demo_env False) False ''SELECT ISO FILE'' ''/'' ?s1
        = (Return (Finished None),
           \<lparr>trace = [Subprocess (dialog_yesno_cmd ''Error'' ''Permission denied: /root''
                                   ''Yes'' ''No''),
                     Subprocess (dialog_menu_cmd ''SELECT ISO FILE'' (browse_prompt ''/'' False)
                                   [(''..'', ''../ (Go Up)''), (''home/'', ''(Dir)''),
                                    (''root/'', ''(Dir)'')] 20 75)],
            responses = [], keyboard = []\<rparr>)"
    by (simp add: browse_step_menu[OF demo_listdir(2)[of False], where r = cancelled and rs = "[]"]
        demo_choices demo_answers browse_select_def)
  ultimately have 1: "browse_loop (demo_env False) False ''SELECT ISO FILE'' ''/root''
          (session [answered [], cancelled])
        = (Return None,
           \<lparr>trace = [Subprocess (dialog_yesno_cmd ''Error'' ''Permission denied: /root''
                                   ''Yes'' ''No''),
                     Subprocess (dialog_menu_cmd ''SELECT ISO FILE'' (browse_prompt ''/'' False)
                                   [(''..'', ''../ (Go Up)''), (''home/'', ''(Dir)''),
                                    (''root/'', ''(Dir)'')] 20 75)],
            responses = [], keyboard = []\<rparr>)"
    by (simp add: browse_loop_Finished)
  have 2: "browse_loop (demo_env False) False ''SELECT ISO FILE'' ''/root'' (session [])
        = (Blocked,
           \<lparr>trace = [Subprocess (dialog_yesno_cmd ''Error'' ''Permission denied: /root''
                                   ''Yes'' ''No'')],
            responses = [], keyboard = []\<rparr>)"
    using p[where s = "session []"] by (simp add: session_def)
  show ?thesis using demo_listdir(3)[of False] 1 2 by simp
qed

theorem browse_file_selection_witness:
  "browse_path (demo_env False) ''/home/alexia/'' False ''SELECT ISO FILE''
     (session [answered ''ubuntu.iso''])
   = (Return (Some ''/home/alexia/ubuntu.iso''),
      \<lparr>trace = [Subprocess (dialog_menu_cmd ''SELECT ISO FILE'' (browse_prompt ''/home/alexia'' False)
                              [(''..'', ''../ (Go Up)''), (''vms/'', ''(Dir)''),
                               (''pipe '', ''(File)''), (''ubuntu.iso'', ''(File)'')] 20 75)],
       responses = [], keyboard = []\<rparr>)
   \<and> (\<exists>dir entries (t::state) r.
         listdir (demo_env False) dir = Inr entries \<and> responses t = [r] \<and> returncode r = 0
       \<and> [Subprocess (dialog_menu_cmd ''SELECT ISO FILE'' (browse_prompt ''/home/alexia'' False)
                        [(''..'', ''../ (Go Up)''), (''vms/'', ''(Dir)''),
                         (''pipe '', ''(File)''), (''ubuntu.iso'', ''(File)'')] 20 75)]
           = trace t @ [Subprocess (dialog_menu_cmd ''SELECT ISO FILE'' (browse_prompt dir False)
                                      (browse_choices (demo_env False) False dir entries) 20 75)]
       \<and> (''/home/alexia/ubuntu.iso'' = join dir (strip (stderr r))
            \<or> (strip (stderr r) = ''.'' \<and> ''/home/alexia/ubuntu.iso'' = dir))
       \<and> (''.'' \<notin> set entries
            \<and> strip (stderr r) \<in> fst ` set (browse_choices (demo_env False) False dir entries) \<longrightarrow>
              strip (stderr r) \<in> set entries
              \<and> ''/home/alexia/ubuntu.iso'' = join dir (strip (stderr r))
              \<and> isfile (demo_env False) ''/home/alexia/ubuntu.iso''))"
proof -
  let ?s' = "\<lparr>trace = [Subprocess (dialog_menu_cmd ''SELECT ISO FILE''
                          (browse_prompt ''/home/alexia'' False)
                          [(''..'', ''../ (Go Up)''), (''vms/'', ''(Dir)''),
                           (''pipe '', ''(File)''), (''ubuntu.iso'', ''(File)'')] 20 75)],
               responses = [], keyboard = []\<rparr>"
  have s: "strip ''ubuntu.iso'' = ''ubuntu.iso''" by code_simp
  have j: "join ''/home/alexia'' ''ubuntu.iso'' = ''/home/alexia/ubuntu.iso''" by code_simp
  have "browse_step (demo_env False) False ''SELECT ISO FILE'' ''/home/alexia''
          (session [answered ''ubuntu.iso''])
        = (Return (Finished (Some ''/home/alexia/ubuntu.iso'')), ?s')"
    by (simp add: browse_step_menu[OF demo_listdir(1)[of False],
          where r = "answered ''ubuntu.iso''" and rs = "[]"]
        demo_choices demo_answers browse_select_def s j session_def suffix_to_prefix)
  then have b: "browse_path (demo_env False) ''/home/alexia/'' False ''SELECT ISO FILE''
                  (session [answered ''ubuntu.iso''])
                = (Return (Some ''/home/alexia/ubuntu.iso''), ?s')"
    by (simp add: demo_start browse_loop_Finished)
  note t = browse_file_selection
    [where env = "demo_env False" and start_path = "''/home/alexia/''"
       and title = "''SELECT ISO FILE''" and s = "session [answered ''ubuntu.iso'']"
       and p = "''/home/alexia/ubuntu.iso''" and s' = ?s', THEN conjunct2, THEN conjunct2,
     THEN mp, OF b]
  show ?thesis
    using b t by simp
qed

lemma demo_dependencies: "check_dependencies (demo_env installed) s = (Return (), s)"
  by (rule check_dependencies_present) (simp_all add: demo_env_def)

lemma pair_of_parts: "fst x = a \<Longrightarrow> (x = (a, snd x))"
  by (cases x) simp

theorem main_exit_status_witness:
  "fst (main (demo_env False) (session [cancelled])) = Exit 0
   \<and> list_all is_dialog (trace (snd (main (demo_env False) (session [cancelled]))))
   \<and> fst (main (demo_env False) (session [answered ''pipe ''])) = Exit 1
   \<and> fst (main (demo_env False) (session [answered ''ubuntu.iso'', cancelled])) = Exit 0
   \<and> list_all is_dialog
        (trace (snd (main (demo_env False) (session [answered ''ubuntu.iso'', cancelled]))))
   \<and> fst (main (demo_env False)
            (session [answered ''ubuntu.iso'', answered ''vms/'', answered ''.'', answered [],
                      cancelled])) = Exit 1
   \<and> fst (main (demo_env False)
            (session [answered ''ubuntu.iso'', answered ''vms/'', answered ''.'', answered [],
                      answered ''run''])) = Exit 1"
proof -
  let ?env = "demo_env False"
  let ?iso = "browse_path ?env ''/home/alexia/'' False ''SELECT ISO FILE''"
  let ?dir = "browse_path ?env ''/home/alexia/'' True ''SELECT DIR TO INSTALL VIRTUAL DISK''"
  note deps = demo_dependencies[of False]
  have e: "trace (session rs) = []" for rs
    by (simp add: session_def)

  \<comment> \<open>the medium menu is cancelled\<close>
  let ?a = "session [cancelled]"
  have "fst (?iso ?a) = Return None" by code_simp
  then have a: "?iso ?a = (Return None, snd (?iso ?a))" by (rule pair_of_parts)
  note ta = main_exit_status[OF deps, where ?s0.0 = ?a and ?s2.0 = "snd (?iso ?a)",
      THEN conjunct1, THEN mp, OF a]
  have 1: "fst (main ?env ?a) = Exit 0" "list_all is_dialog (trace (snd (main ?env ?a)))"
    using ta by (auto simp: e)

  \<comment> \<open>the selected medium is not a regular file\<close>
  let ?b = "session [answered ''pipe '']"
  have "fst (?iso ?b) = Return (Some ''/home/alexia/pipe'')" by code_simp
  then have b: "?iso ?b = (Return (Some ''/home/alexia/pipe''), snd (?iso ?b))"
    by (rule pair_of_parts)
  have nb: "''/home/alexia/pipe'' \<noteq> [] \<and> \<not> isfile ?env ''/home/alexia/pipe''"
    by (simp add: demo_env_def OVMF_CODE_def OVMF_VARS_TEMPLATE_def)
  note tb = main_exit_status[OF deps, where ?s0.0 = ?b and ?s2.0 = "snd (?iso ?b)"
        and iso_path = "''/home/alexia/pipe''",
      THEN conjunct2, THEN conjunct1, THEN mp, OF conjI[OF b nb]]
  have 2: "fst (main ?env ?b) = Exit 1"
    using tb by simp

  \<comment> \<open>the storage directory menu is cancelled\<close>
  let ?c = "session [answered ''ubuntu.iso'', cancelled]"
  have "fst (?iso ?c) = Return (Some ''/home/alexia/ubuntu.iso'')" by code_simp
  then have c: "?iso ?c = (Return (Some ''/home/alexia/ubuntu.iso''), snd (?iso ?c))"
    by (rule pair_of_parts)
  have ni: "''/home/alexia/ubuntu.iso'' \<noteq> [] \<and> isfile ?env ''/home/alexia/ubuntu.iso''"
    by (simp add: demo_env_def)
  have "fst (?dir (snd (?iso ?c))) = Return None" by code_simp
  then have c2: "?dir (snd (?iso ?c)) = (Return None, snd (?dir (snd (?iso ?c))))"
    by (rule pair_of_parts)
  note tc = main_exit_status[OF deps, where ?s0.0 = ?c and ?s2.0 = "snd (?iso ?c)"
        and iso_path = "''/home/alexia/ubuntu.iso''" and ?s3.0 = "snd (?dir (snd (?iso ?c)))",
      THEN conjunct2, THEN conjunct2, THEN conjunct1, THEN mp]
  have 3: "fst (main ?env ?c) = Exit 0" "list_all is_dialog (trace (snd (main ?env ?c)))"
    using tc c c2 ni by (auto simp: e)

  \<comment> \<open>the menu of the operating mode is cancelled\<close>
  let ?d = "session [answered ''ubuntu.iso'', answered ''vms/'', answered ''.'', answered [],
                     cancelled]"
  have "fst (?iso ?d) = Return (Some ''/home/alexia/ubuntu.iso'')" by code_simp
  then have d: "?iso ?d = (Return (Some ''/home/alexia/ubuntu.iso''), snd (?iso ?d))"
    by (rule pair_of_parts)
  have "fst (?dir (snd (?iso ?d))) = Return (Some ''/home/alexia/vms'')" by code_simp
  then have d2: "?dir (snd (?iso ?d))
                   = (Return (Some ''/home/alexia/vms''), snd (?dir (snd (?iso ?d))))"
    by (rule pair_of_parts)
  have d3: "responses (snd (?dir (snd (?iso ?d)))) = answered [] # cancelled # []"
    by code_simp
  note td = main_exit_status[OF deps, where ?s0.0 = ?d and ?s2.0 = "snd (?iso ?d)"
        and iso_path = "''/home/alexia/ubuntu.iso''" and ?s3.0 = "snd (?dir (snd (?iso ?d)))"
        and vm_dir = "''/home/alexia/vms''" and f = "answered []" and m = cancelled
        and rs = "[]",
      THEN conjunct2, THEN conjunct2, THEN conjunct2, THEN conjunct1, THEN mp]
  have 4: "fst (main ?env ?d) = Exit 1"
    using td d d2 d3 ni by (simp add: demo_answers)

  \<comment> \<open>run mode is chosen and there is no disk\<close>
  let ?r = "session [answered ''ubuntu.iso'', answered ''vms/'', answered ''.'', answered [],
                     answered ''run'']"
  have "fst (?iso ?r) = Return (Some ''/home/alexia/ubuntu.iso'')" by code_simp
  then have r: "?iso ?r = (Return (Some ''/home/alexia/ubuntu.iso''), snd (?iso ?r))"
    by (rule pair_of_parts)
  have "fst (?dir (snd (?iso ?r))) = Return (Some ''/home/alexia/vms'')" by code_simp
  then have r2: "?dir (snd (?iso ?r))
                   = (Return (Some ''/home/alexia/vms''), snd (?dir (snd (?iso ?r))))"
    by (rule pair_of_parts)
  have r3: "responses (snd (?dir (snd (?iso ?r)))) = answered [] # answered ''run'' # []"
    by code_simp
  have r4: "strip (stderr (answered ''run'')) \<noteq> []"
    "strip (stderr (answered ''run'')) \<noteq> ''install''"
    by code_simp+
  have r5: "\<not> path_exists ?env
                (disk_path ''/home/alexia/ubuntu.iso'' ''/home/alexia/vms''
                   (returncode (answered []) = 0))"
    by (simp add: demo_answers demo_paths demo_exists)
  note tr = main_exit_status[OF deps, where ?s0.0 = ?r and ?s2.0 = "snd (?iso ?r)"
        and iso_path = "''/home/alexia/ubuntu.iso''" and ?s3.0 = "snd (?dir (snd (?iso ?r)))"
        and vm_dir = "''/home/alexia/vms''" and f = "answered []" and m = "answered ''run''"
        and rs = "[]",
      THEN conjunct2, THEN conjunct2, THEN conjunct2, THEN conjunct2, THEN mp]
  have 5: "fst (main ?env ?r) = Exit 1"
    using tr r r2 r3 r4 r5 ni by (simp add: demo_answers)

  show ?thesis using 1 2 3 4 5 by simp
qed

end
